theory Spec2Isabelle
  imports Complex_Main "HOL-Library.Word" "HOL-Library.Multiset"
begin

section \<open>JavaScript strings and values\<close>

text \<open>
  A JavaScript string is a sequence of UTF-16 code units and \<^verbatim>\<open>s.length\<close> counts them.
  Buffers are sequences of bytes. String constants of the source are written through
  \<open>js\<close>, which maps each character of an ASCII literal to its code unit.
\<close>

type_synonym code_unit = "16 word"
type_synonym jsstring = "code_unit list"
type_synonym byte = "8 word"

definition js :: "string \<Rightarrow> jsstring" where
  "js s = map of_char s"

text \<open>
  \<^verbatim>\<open>String.prototype.trim\<close> removes the ECMAScript WhiteSpace and LineTerminator code
  points from both ends: TAB, LF, VT, FF, CR, SP, NBSP, the Unicode space separators, LS, PS
  and the byte order mark.
\<close>

definition isWhiteSpace :: "code_unit \<Rightarrow> bool" where
  "isWhiteSpace c = (c \<in> set [0x9, 0xA, 0xB, 0xC, 0xD, 0x20, 0xA0, 0x1680, 0x2000, 0x2001,
     0x2002, 0x2003, 0x2004, 0x2005, 0x2006, 0x2007, 0x2008, 0x2009, 0x200A, 0x2028, 0x2029,
     0x202F, 0x205F, 0x3000, 0xFEFF])"

definition trim :: "jsstring \<Rightarrow> jsstring" where
  "trim s = rev (dropWhile isWhiteSpace (rev (dropWhile isWhiteSpace s)))"

text \<open>
  \<^verbatim>\<open>s.startsWith(p)\<close>.
\<close>

definition startsWith :: "jsstring \<Rightarrow> jsstring \<Rightarrow> bool" where
  "startsWith s p = (take (length p) s = p)"

text \<open>
  The values a parsed JSON request body can hold. An object is the list of its own
  properties; reading a property that is not there gives \<open>Undefined\<close>.
\<close>

datatype jsval =
    Undefined
  | Null
  | Bool bool
  | Num int
  | Str jsstring
  | Arr "jsval list"
  | Obj "(jsstring \<times> jsval) list"

type_synonym jsobject = "(jsstring \<times> jsval) list"

definition get_prop :: "jsobject \<Rightarrow> jsstring \<Rightarrow> jsval" where
  "get_prop obj k = (case map_of obj k of None \<Rightarrow> Undefined | Some v \<Rightarrow> v)"

text \<open>
  Truthiness, as \<^verbatim>\<open>!v\<close>, \<^verbatim>\<open>v && e\<close> and \<^verbatim>\<open>v || e\<close> test it: \<^verbatim>\<open>undefined\<close>, \<^verbatim>\<open>null\<close>,
  \<^verbatim>\<open>false\<close>, \<^verbatim>\<open>0\<close> and the empty string are falsy.
\<close>

fun truthy :: "jsval \<Rightarrow> bool" where
  "truthy Undefined = False"
| "truthy Null = False"
| "truthy (Bool b) = b"
| "truthy (Num n) = (n \<noteq> 0)"
| "truthy (Str s) = (s \<noteq> [])"
| "truthy (Arr xs) = True"
| "truthy (Obj ps) = True"

section \<open>Errors\<close>

text \<open>
  Every \<^verbatim>\<open>throw\<close> and every rejected promise is a value. The first three are the service's
  typed failures of \<^verbatim>\<open>utils/errors\<close>; \<open>TypeError\<close> is the language's own (a method call on
  a value that has no such method); \<open>GenericError\<close> is a plain \<^verbatim>\<open>Error\<close>;
  \<open>SchemaValidationError\<close> is the document model's own \<^verbatim>\<open>ValidationError\<close>, which its
  schema validators throw: another class than the service's, with the same name;
  \<open>FileNotFound\<close> is thrown by the bucket.
\<close>

datatype error =
    ValidationError string
  | NotFoundError string
  | AuthorizationError string
  | TypeError string
  | GenericError string
  | SchemaValidationError string
  | FileNotFound

text \<open>
  \<^verbatim>\<open>v.trim()\<close> on a request value: only strings have the method.
\<close>

fun method_trim :: "jsval \<Rightarrow> error + jsstring" where
  "method_trim (Str s) = Inr (trim s)"
| "method_trim Undefined = Inl (TypeError ''Cannot read properties of undefined (reading 'trim')'')"
| "method_trim Null = Inl (TypeError ''Cannot read properties of null (reading 'trim')'')"
| "method_trim v = Inl (TypeError ''trim is not a function'')"

section \<open>Data model\<close>

text \<open>
  An object id is kept in the form \<^verbatim>\<open>toString()\<close> prints it: 24 lower-case hexadecimal
  digits.
\<close>

datatype objectid = ObjectId jsstring

fun toString :: "objectid \<Rightarrow> jsstring" where
  "toString (ObjectId s) = s"

text \<open>The result of one upload (\<^verbatim>\<open>uploadToGridFS\<close> resolves with it).\<close>

record uploaded_file =
  uf_id :: objectid
  uf_filename :: jsstring
  uf_contentType :: jsstring
  uf_size :: nat

text \<open>The Post schema: an image reference, and the post with its managed timestamps.\<close>

record image =
  fileId :: objectid
  filename :: jsstring
  contentType :: jsstring
  size :: nat

record post =
  post_id :: objectid
  title :: jsstring
  content :: jsstring
  user_id :: objectid
  images :: "image list"
  createdAt :: nat
  updatedAt :: nat

record user =
  user_oid :: objectid
  email :: jsstring

text \<open>A file of the bucket: the files document and its bytes.\<close>

record file_metadata =
  originalName :: "jsstring option"
  uploadedBy :: "objectid option"
  uploadedAt :: "nat option"
  md_contentType :: "jsstring option"

record stored_file =
  file_id :: objectid
  file_name :: jsstring
  file_length :: nat
  file_contentType :: "jsstring option"
  metadata :: "file_metadata option"
  file_data :: "byte list"

text \<open>
  What the program writes to the console, and the calls it makes on the document store and
  on the bucket, in order.
\<close>

datatype log_entry = LogInfo jsstring | LogError string error

datatype store_op =
    PostFind
  | PostCount
  | PostFindById jsstring
  | PostCreate
  | PostFindByIdAndUpdate jsstring
  | PostFindByIdAndDelete jsstring
  | BucketFindByName jsstring
  | BucketFindById objectid
  | BucketOpenUploadStream jsstring
  | BucketOpenDownloadStreamByName jsstring
  | BucketOpenDownloadStream objectid
  | BucketDelete objectid

text \<open>
  The state a request runs in: the two collections, the bucket, whether
  \<^verbatim>\<open>initGridFS\<close> has run, the console, the calls made so far, the clock, and the two
  sources the program draws from: the driver's id generator and \<^verbatim>\<open>crypto.randomBytes\<close>.
\<close>

record world =
  posts :: "post list"
  users :: "user list"
  gridfs_ready :: bool
  bucket :: "stored_file list"
  console :: "log_entry list"
  oplog :: "store_op list"
  clock :: nat
  oid_source :: "nat \<Rightarrow> objectid"
  oid_used :: nat
  random_source :: "nat \<Rightarrow> byte"
  random_used :: nat

text \<open>
  An operation runs on the world and returns a value or throws; the world it leaves is kept
  in both cases.
\<close>

type_synonym 'a io = "world \<Rightarrow> (error + 'a) \<times> world"

definition returnE :: "'a \<Rightarrow> 'a io" where
  "returnE x = (\<lambda>w. (Inr x, w))"

definition throwE :: "error \<Rightarrow> 'a io" where
  "throwE e = (\<lambda>w. (Inl e, w))"

definition bindE :: "'a io \<Rightarrow> ('a \<Rightarrow> 'b io) \<Rightarrow> 'b io" where
  "bindE m f = (\<lambda>w. case m w of (Inl e, w') \<Rightarrow> (Inl e, w') | (Inr x, w') \<Rightarrow> f x w')"

definition liftE :: "error + 'a \<Rightarrow> 'a io" where
  "liftE r = (\<lambda>w. (r, w))"

definition record_op :: "store_op \<Rightarrow> world \<Rightarrow> world" where
  "record_op c w = w\<lparr>oplog := oplog w @ [c]\<rparr>"

definition console_log :: "log_entry \<Rightarrow> world \<Rightarrow> world" where
  "console_log l w = w\<lparr>console := console w @ [l]\<rparr>"

section \<open>The Post model\<close>

text \<open>
  \<^verbatim>\<open>Post.create(payload)\<close>. The schema requires \<open>title\<close>, \<open>content\<close> (a required string
  must not be empty) and \<open>user_id\<close>; \<open>images\<close> defaults to the empty array; the driver
  gives the document its id and \<^verbatim>\<open>timestamps: true\<close> both dates.
\<close>

record post_payload =
  p_title :: jsstring
  p_content :: jsstring
  p_user_id :: objectid
  p_images :: "image list option"

definition Post_create :: "post_payload \<Rightarrow> post io" where
  "Post_create p = (\<lambda>w.
     if p_title p = [] then (Inl (SchemaValidationError ''Path `title` is required.''), w)
     else if p_content p = [] then (Inl (SchemaValidationError ''Path `content` is required.''), w)
     else
       let doc = \<lparr>post_id = oid_source w (oid_used w),
                  title = p_title p,
                  content = p_content p,
                  user_id = p_user_id p,
                  images = (case p_images p of None \<Rightarrow> [] | Some ims \<Rightarrow> ims),
                  createdAt = clock w,
                  updatedAt = clock w\<rparr>
       in (Inr doc, record_op PostCreate (w\<lparr>posts := posts w @ [doc], oid_used := Suc (oid_used w)\<rparr>)))"

section \<open>PostService: creation\<close>

text \<open>
  \<^verbatim>\<open>files\<close> is \<open>None\<close> for \<^verbatim>\<open>null\<close>; the parameter's default replaces \<^verbatim>\<open>undefined\<close> by the
  empty list, and both leave the payload without an \<open>images\<close> key.
\<close>

definition image_of_file :: "uploaded_file \<Rightarrow> image" where
  "image_of_file file = \<lparr>fileId = uf_id file, filename = uf_filename file,
     contentType = uf_contentType file, size = uf_size file\<rparr>"

definition createPost :: "jsobject \<Rightarrow> objectid \<Rightarrow> uploaded_file list option \<Rightarrow> post io" where
  "createPost postData userId files =
     (let title = get_prop postData (js ''title'');
          content = get_prop postData (js ''content'')
      in if \<not> truthy title \<or> \<not> truthy content
         then throwE (ValidationError ''Title and content are required'')
         else bindE (liftE (method_trim title)) (\<lambda>t.
           if length t < 3
           then throwE (ValidationError ''Title must be at least 3 characters long'')
           else bindE (liftE (method_trim content)) (\<lambda>c.
             if length c < 10
             then throwE (ValidationError ''Content must be at least 10 characters long'')
             else Post_create
               \<lparr>p_title = t, p_content = c, p_user_id = userId,
                p_images = (case files of
                     None \<Rightarrow> None
                   | Some fs \<Rightarrow> if length fs > 0 then Some (map image_of_file fs) else None)\<rparr>)))"

section \<open>Upload pipeline\<close>

text \<open>
  \<^verbatim>\<open>buffer.toString('hex')\<close>: two lower-case hexadecimal digits for each byte.
\<close>

definition hex_digit :: "nat \<Rightarrow> code_unit" where
  "hex_digit n = js ''0123456789abcdef'' ! n"

definition hex_of_byte :: "byte \<Rightarrow> jsstring" where
  "hex_of_byte b = [hex_digit (unat b div 16), hex_digit (unat b mod 16)]"

definition toString_hex :: "byte list \<Rightarrow> jsstring" where
  "toString_hex bs = concat (map hex_of_byte bs)"

text \<open>
  \<^verbatim>\<open>crypto.randomBytes(n)\<close> takes the next \<open>n\<close> bytes of the random source.
\<close>

definition randomBytes :: "nat \<Rightarrow> byte list io" where
  "randomBytes n = (\<lambda>w.
     (Inr (map (random_source w) [random_used w ..< random_used w + n]),
      w\<lparr>random_used := random_used w + n\<rparr>))"

text \<open>
  \<^verbatim>\<open>path.extname\<close> (POSIX): the loop runs from the last code unit to the first. The
  second argument of \<open>extname_loop\<close> is \<open>i + 1\<close>; returning the state without a recursive
  call is the loop's \<^verbatim>\<open>break\<close>.
\<close>

record ext_state =
  startDot :: int
  startPart :: int
  ext_end :: int
  matchedSlash :: bool
  preDotState :: int

fun extname_loop :: "jsstring \<Rightarrow> nat \<Rightarrow> ext_state \<Rightarrow> ext_state" where
  "extname_loop path 0 st = st"
| "extname_loop path (Suc i) st =
     (let code = path ! i in
      if code = 0x2F then
        (if \<not> matchedSlash st then st\<lparr>startPart := int i + 1\<rparr>
         else extname_loop path i st)
      else
        let st1 = (if ext_end st = -1 then st\<lparr>matchedSlash := False, ext_end := int i + 1\<rparr>
                   else st);
            st2 = (if code = 0x2E then
                     (if startDot st1 = -1 then st1\<lparr>startDot := int i\<rparr>
                      else if preDotState st1 \<noteq> 1 then st1\<lparr>preDotState := 1\<rparr>
                      else st1)
                   else if startDot st1 \<noteq> -1 then st1\<lparr>preDotState := -1\<rparr>
                   else st1)
        in extname_loop path i st2)"

definition extname :: "jsstring \<Rightarrow> jsstring" where
  "extname path =
     (let st = extname_loop path (length path)
                 \<lparr>startDot = -1, startPart = 0, ext_end = -1, matchedSlash = True,
                  preDotState = 0\<rparr>
      in if startDot st = -1 \<or> ext_end st = -1 \<or> preDotState st = 0 \<or>
            (preDotState st = 1 \<and> startDot st = ext_end st - 1 \<and>
             startDot st = startPart st + 1)
         then []
         else take (nat (ext_end st - startDot st)) (drop (nat (startDot st)) path))"

text \<open>\<^verbatim>\<open>getGridFS\<close> throws until \<^verbatim>\<open>initGridFS\<close> has run.\<close>

definition getGridFS :: "unit io" where
  "getGridFS = (\<lambda>w.
     if \<not> gridfs_ready w
     then (Inl (GenericError ''GridFS not initialized. Call initGridFS() first.''), w)
     else (Inr (), w))"

text \<open>
  The bucket. \<^verbatim>\<open>openUploadStream\<close> gives the stream its id; piping the buffer into it and
  its \<^verbatim>\<open>finish\<close> event leave one more file. \<^verbatim>\<open>delete\<close> throws when no file has the id.
  \<^verbatim>\<open>find(...).toArray()\<close> lists the matching files; \<^verbatim>\<open>openDownloadStreamByName\<close> reads
  the newest file of that name and \<^verbatim>\<open>openDownloadStream\<close> the file of that id, and both
  emit an error when there is none.
\<close>

definition bucket_upload :: "jsstring \<Rightarrow> file_metadata \<Rightarrow> byte list \<Rightarrow> objectid io" where
  "bucket_upload name md buf = (\<lambda>w.
     let fid = oid_source w (oid_used w);
         f = \<lparr>file_id = fid, file_name = name, file_length = length buf,
              file_contentType = None, metadata = Some md, file_data = buf\<rparr>
     in (Inr fid,
         record_op (BucketOpenUploadStream name)
           (w\<lparr>bucket := bucket w @ [f], oid_used := Suc (oid_used w)\<rparr>)))"

definition bucket_delete :: "objectid \<Rightarrow> unit io" where
  "bucket_delete fid = (\<lambda>w.
     let w' = record_op (BucketDelete fid) w in
     if fid \<in> set (map file_id (bucket w'))
     then (Inr (), w'\<lparr>bucket := filter (\<lambda>f. file_id f \<noteq> fid) (bucket w')\<rparr>)
     else (Inl FileNotFound, w'))"

definition bucket_find_by_name :: "jsstring \<Rightarrow> stored_file list io" where
  "bucket_find_by_name name = (\<lambda>w.
     (Inr (filter (\<lambda>f. file_name f = name) (bucket w)), record_op (BucketFindByName name) w))"

definition bucket_find_by_id :: "objectid \<Rightarrow> stored_file list io" where
  "bucket_find_by_id fid = (\<lambda>w.
     (Inr (filter (\<lambda>f. file_id f = fid) (bucket w)), record_op (BucketFindById fid) w))"

definition openDownloadStreamByName :: "jsstring \<Rightarrow> byte list io" where
  "openDownloadStreamByName name = (\<lambda>w.
     let w' = record_op (BucketOpenDownloadStreamByName name) w in
     case rev (filter (\<lambda>f. file_name f = name) (bucket w')) of
       [] \<Rightarrow> (Inl FileNotFound, w')
     | f # fs \<Rightarrow> (Inr (file_data f), w'))"

definition openDownloadStream :: "objectid \<Rightarrow> byte list io" where
  "openDownloadStream fid = (\<lambda>w.
     let w' = record_op (BucketOpenDownloadStream fid) w in
     case filter (\<lambda>f. file_id f = fid) (bucket w') of
       [] \<Rightarrow> (Inl FileNotFound, w')
     | f # fs \<Rightarrow> (Inr (file_data f), w'))"

text \<open>A file as the upload middleware hands it over.\<close>

record multer_file =
  originalname :: jsstring
  mimetype :: jsstring
  buffer :: "byte list"

text \<open>
  \<^verbatim>\<open>uploadToGridFS\<close>: the promise resolves on the stream's \<^verbatim>\<open>finish\<close> event and rejects
  with whatever the body throws.
\<close>

definition uploadToGridFS :: "byte list \<Rightarrow> multer_file \<Rightarrow> objectid \<Rightarrow> uploaded_file io" where
  "uploadToGridFS buf fileInfo userId =
     bindE getGridFS (\<lambda>u.
     bindE (randomBytes 16) (\<lambda>r. (\<lambda>w.
       let filename = toString_hex r @ extname (originalname fileInfo);
           md = \<lparr>originalName = Some (originalname fileInfo),
                 uploadedBy = Some userId,
                 uploadedAt = Some (clock w),
                 md_contentType = Some (mimetype fileInfo)\<rparr>
       in bindE (bucket_upload filename md buf) (\<lambda>fid.
            returnE \<lparr>uf_id = fid, uf_filename = filename,
                     uf_contentType = mimetype fileInfo, uf_size = length buf\<rparr>) w)))"

text \<open>
  \<^verbatim>\<open>files.map\<close> starts every upload; \<^verbatim>\<open>Promise.all\<close> resolves with all results or rejects
  with the first rejection.
\<close>

fun start_all :: "'a io list \<Rightarrow> world \<Rightarrow> (error + 'a) list \<times> world" where
  "start_all [] w = ([], w)"
| "start_all (m # ms) w =
     (case m w of (r, w') \<Rightarrow> (case start_all ms w' of (rs, w'') \<Rightarrow> (r # rs, w'')))"

fun Promise_all :: "(error + 'a) list \<Rightarrow> error + 'a list" where
  "Promise_all [] = Inr []"
| "Promise_all (Inl e # rs) = Inl e"
| "Promise_all (Inr x # rs) = (case Promise_all rs of Inl e \<Rightarrow> Inl e | Inr xs \<Rightarrow> Inr (x # xs))"

definition uploadMultipleToGridFS :: "multer_file list option \<Rightarrow> objectid \<Rightarrow> uploaded_file list io" where
  "uploadMultipleToGridFS files userId =
     (case files of
        None \<Rightarrow> returnE []
      | Some fs \<Rightarrow>
          if length fs = 0 then returnE []
          else (\<lambda>w. case start_all (map (\<lambda>file. uploadToGridFS (buffer file) file userId) fs) w of
                  (rs, w') \<Rightarrow> (Promise_all rs, w')))"

section \<open>Object ids and queries on the Post collection\<close>

text \<open>
  \<^verbatim>\<open>mongoose.Types.ObjectId.isValid\<close> on a route parameter, which is a string: 24
  hexadecimal digits. \<^verbatim>\<open>new ObjectId(s)\<close> reads them; upper and lower case digits give
  the same id.
\<close>

definition isHexDigit :: "code_unit \<Rightarrow> bool" where
  "isHexDigit c = ((0x30 \<le> c \<and> c \<le> 0x39) \<or> (0x61 \<le> c \<and> c \<le> 0x66) \<or> (0x41 \<le> c \<and> c \<le> 0x46))"

definition hex_lower :: "code_unit \<Rightarrow> code_unit" where
  "hex_lower c = (if 0x41 \<le> c \<and> c \<le> 0x46 then c + 0x20 else c)"

definition ObjectId_isValid :: "jsstring \<Rightarrow> bool" where
  "ObjectId_isValid s = (length s = 24 \<and> list_all isHexDigit s)"

definition new_ObjectId :: "jsstring \<Rightarrow> objectid" where
  "new_ObjectId s = ObjectId (map hex_lower s)"

text \<open>
  The query builder's \<^verbatim>\<open>sort({ createdAt: -1 })\<close>, \<^verbatim>\<open>skip\<close> and \<^verbatim>\<open>limit\<close>. The server
  refuses a negative skip; a limit of 0 is no limit and a negative limit is its absolute
  value.
\<close>

definition sort_createdAt_desc :: "post list \<Rightarrow> post list" where
  "sort_createdAt_desc ps = rev (sort_key createdAt ps)"

definition query_skip :: "int \<Rightarrow> 'a list \<Rightarrow> error + 'a list" where
  "query_skip n xs =
     (if n < 0 then Inl (GenericError ''Skip value must be non-negative'')
      else Inr (drop (nat n) xs))"

definition query_limit :: "int \<Rightarrow> 'a list \<Rightarrow> 'a list" where
  "query_limit n xs = (if n = 0 then xs else take (nat \<bar>n\<bar>) xs)"

definition Post_find :: "(post \<Rightarrow> bool) \<Rightarrow> int \<Rightarrow> int \<Rightarrow> post list io" where
  "Post_find flt skip limit = (\<lambda>w.
     (case query_skip skip (sort_createdAt_desc (filter flt (posts w))) of
        Inl e \<Rightarrow> Inl e
      | Inr ps \<Rightarrow> Inr (query_limit limit ps),
      record_op PostFind w))"

definition Post_countDocuments :: "(post \<Rightarrow> bool) \<Rightarrow> nat io" where
  "Post_countDocuments flt = (\<lambda>w. (Inr (length (filter flt (posts w))), record_op PostCount w))"

text \<open>
  \<^verbatim>\<open>populate('user_id', 'email')\<close>. The Post schema declares \<open>user_id\<close> without a
  \<open>ref\<close>, so there is no model to load the owner from: the users collection is not
  queried, the reference stays as it is and no user document is attached.
\<close>

record populated_post =
  pp_post :: post
  pp_user :: "user option"

definition populate :: "post \<Rightarrow> populated_post io" where
  "populate p = (\<lambda>w.
     (Inr \<lparr>pp_post = p, pp_user = None\<rparr>, w))"

fun populate_all :: "post list \<Rightarrow> populated_post list io" where
  "populate_all [] = returnE []"
| "populate_all (p # ps) =
     bindE (populate p) (\<lambda>q. bindE (populate_all ps) (\<lambda>qs. returnE (q # qs)))"

text \<open>
  \<^verbatim>\<open>findById\<close>, \<^verbatim>\<open>findByIdAndUpdate\<close> and \<^verbatim>\<open>findByIdAndDelete\<close> cast the id they are given
  and throw a cast error when it is not an object id.
\<close>

definition cast_id :: "jsstring \<Rightarrow> error + objectid" where
  "cast_id s =
     (if ObjectId_isValid s then Inr (new_ObjectId s)
      else Inl (GenericError ''Cast to ObjectId failed''))"

fun remove_first :: "('a \<Rightarrow> bool) \<Rightarrow> 'a list \<Rightarrow> 'a list" where
  "remove_first P [] = []"
| "remove_first P (x # xs) = (if P x then xs else x # remove_first P xs)"

fun update_first :: "('a \<Rightarrow> bool) \<Rightarrow> 'a \<Rightarrow> 'a list \<Rightarrow> 'a list" where
  "update_first P y [] = []"
| "update_first P y (x # xs) = (if P x then y # xs else x # update_first P y xs)"

definition Post_findById :: "jsstring \<Rightarrow> post option io" where
  "Post_findById postId = (\<lambda>w.
     let w' = record_op (PostFindById postId) w in
     case cast_id postId of
       Inl e \<Rightarrow> (Inl e, w')
     | Inr oid \<Rightarrow> (Inr (find (\<lambda>p. post_id p = oid) (posts w')), w'))"

definition Post_findByIdAndDelete :: "jsstring \<Rightarrow> post option io" where
  "Post_findByIdAndDelete postId = (\<lambda>w.
     let w' = record_op (PostFindByIdAndDelete postId) w in
     case cast_id postId of
       Inl e \<Rightarrow> (Inl e, w')
     | Inr oid \<Rightarrow>
         (case find (\<lambda>p. post_id p = oid) (posts w') of
            None \<Rightarrow> (Inr None, w')
          | Some p \<Rightarrow>
              (Inr (Some p), w'\<lparr>posts := remove_first (\<lambda>p. post_id p = oid) (posts w')\<rparr>)))"

text \<open>
  \<^verbatim>\<open>findByIdAndUpdate(id, updates, { new: true, runValidators: true })\<close>. Each key of
  \<open>updates\<close> that is a path of the schema is cast to the path's type and validated
  (a required string must not be empty); a key that is no path of the schema is dropped;
  \<open>createdAt\<close> is immutable. Then the matching document, when there is one, gets the new
  values and a new \<open>updatedAt\<close>, and is returned as updated. The service hands it string
  values only; a value of another kind is taken here as a failed cast.
\<close>

datatype path_update =
    SetTitle jsstring
  | SetContent jsstring
  | SetUserId objectid
  | SetImages "image list"

definition cast_image :: "jsval \<Rightarrow> image option" where
  "cast_image v =
     (case v of
        Obj ps \<Rightarrow>
          (case (get_prop ps (js ''fileId''), get_prop ps (js ''filename''),
                 get_prop ps (js ''contentType''), get_prop ps (js ''size'')) of
             (Str i, Str n, Str c, Num z) \<Rightarrow>
               if ObjectId_isValid i \<and> 0 \<le> z
               then Some \<lparr>fileId = new_ObjectId i, filename = n, contentType = c, size = nat z\<rparr>
               else None
           | _ \<Rightarrow> None)
      | _ \<Rightarrow> None)"

fun cast_images :: "jsval list \<Rightarrow> image list option" where
  "cast_images [] = Some []"
| "cast_images (v # vs) =
     (case cast_image v of
        None \<Rightarrow> None
      | Some im \<Rightarrow> (case cast_images vs of None \<Rightarrow> None | Some ims \<Rightarrow> Some (im # ims)))"

definition cast_update :: "jsstring \<times> jsval \<Rightarrow> error + path_update option" where
  "cast_update kv =
     (case kv of (k, v) \<Rightarrow>
        if k = js ''title'' then
          (case v of
             Str s \<Rightarrow> if s = [] then Inl (SchemaValidationError ''Path `title` is required.'')
                      else Inr (Some (SetTitle s))
           | _ \<Rightarrow> Inl (GenericError ''Cast to string failed''))
        else if k = js ''content'' then
          (case v of
             Str s \<Rightarrow> if s = [] then Inl (SchemaValidationError ''Path `content` is required.'')
                      else Inr (Some (SetContent s))
           | _ \<Rightarrow> Inl (GenericError ''Cast to string failed''))
        else if k = js ''user_id'' then
          (case v of
             Str s \<Rightarrow> (case cast_id s of Inl e \<Rightarrow> Inl e | Inr oid \<Rightarrow> Inr (Some (SetUserId oid)))
           | _ \<Rightarrow> Inl (GenericError ''Cast to ObjectId failed''))
        else if k = js ''images'' then
          (case v of
             Arr vs \<Rightarrow> (case cast_images vs of
                          None \<Rightarrow> Inl (GenericError ''Cast to embedded failed'')
                        | Some ims \<Rightarrow> Inr (Some (SetImages ims)))
           | _ \<Rightarrow> Inl (GenericError ''Cast to embedded failed''))
        else Inr None)"

fun cast_updates :: "jsobject \<Rightarrow> error + path_update list" where
  "cast_updates [] = Inr []"
| "cast_updates (kv # kvs) =
     (case cast_update kv of
        Inl e \<Rightarrow> Inl e
      | Inr u \<Rightarrow>
          (case cast_updates kvs of
             Inl e \<Rightarrow> Inl e
           | Inr us \<Rightarrow> Inr (case u of None \<Rightarrow> us | Some x \<Rightarrow> x # us)))"

fun apply_update :: "path_update \<Rightarrow> post \<Rightarrow> post" where
  "apply_update (SetTitle s) p = p\<lparr>title := s\<rparr>"
| "apply_update (SetContent s) p = p\<lparr>content := s\<rparr>"
| "apply_update (SetUserId u) p = p\<lparr>user_id := u\<rparr>"
| "apply_update (SetImages ims) p = p\<lparr>images := ims\<rparr>"

definition Post_findByIdAndUpdate :: "jsstring \<Rightarrow> jsobject \<Rightarrow> post option io" where
  "Post_findByIdAndUpdate postId updates = (\<lambda>w.
     let w' = record_op (PostFindByIdAndUpdate postId) w in
     case cast_id postId of
       Inl e \<Rightarrow> (Inl e, w')
     | Inr oid \<Rightarrow>
         (case cast_updates updates of
            Inl e \<Rightarrow> (Inl e, w')
          | Inr us \<Rightarrow>
              (case find (\<lambda>p. post_id p = oid) (posts w') of
                 None \<Rightarrow> (Inr None, w')
               | Some p \<Rightarrow>
                   let p' = (fold apply_update us p)\<lparr>updatedAt := clock w'\<rparr>
                   in (Inr (Some p'),
                       w'\<lparr>posts := update_first (\<lambda>p. post_id p = oid) p' (posts w')\<rparr>))))"

section \<open>PostService: listing, update and deletion\<close>

subsection \<open>Listing\<close>

record pagination =
  pg_page :: int
  pg_limit :: int
  pg_total :: nat
  pg_pages :: int

record 'a page_result =
  pr_posts :: "'a list"
  pr_pagination :: pagination

text \<open>
  \<^verbatim>\<open>page\<close> and \<^verbatim>\<open>limit\<close> are \<open>None\<close> for \<^verbatim>\<open>undefined\<close>, which the parameter defaults
  replace. \<^verbatim>\<open>Math.ceil(total / limit)\<close> is taken on the exact quotient.
\<close>

definition getAllPosts :: "int option \<Rightarrow> int option \<Rightarrow> populated_post page_result io" where
  "getAllPosts page_arg limit_arg =
     (let page = (case page_arg of None \<Rightarrow> 1 | Some n \<Rightarrow> n);
          limit = (case limit_arg of None \<Rightarrow> 10 | Some n \<Rightarrow> n);
          skip = (page - 1) * limit
      in bindE (Post_find (\<lambda>p. True) skip limit) (\<lambda>found.
         bindE (populate_all found) (\<lambda>ps.
         bindE (Post_countDocuments (\<lambda>p. True)) (\<lambda>total.
           returnE \<lparr>pr_posts = ps,
                    pr_pagination = \<lparr>pg_page = page, pg_limit = limit, pg_total = total,
                      pg_pages = \<lceil>real total / real_of_int limit\<rceil>\<rparr>\<rparr>))))"

definition getPostsByUser :: "objectid \<Rightarrow> int option \<Rightarrow> int option \<Rightarrow> post page_result io" where
  "getPostsByUser userId page_arg limit_arg =
     (let page = (case page_arg of None \<Rightarrow> 1 | Some n \<Rightarrow> n);
          limit = (case limit_arg of None \<Rightarrow> 10 | Some n \<Rightarrow> n);
          skip = (page - 1) * limit
      in bindE (Post_find (\<lambda>p. user_id p = userId) skip limit) (\<lambda>ps.
         bindE (Post_countDocuments (\<lambda>p. user_id p = userId)) (\<lambda>total.
           returnE \<lparr>pr_posts = ps,
                    pr_pagination = \<lparr>pg_page = page, pg_limit = limit, pg_total = total,
                      pg_pages = \<lceil>real total / real_of_int limit\<rceil>\<rparr>\<rparr>)))"

subsection \<open>Operations keyed by a post id\<close>

definition validateObjectId :: "jsstring \<Rightarrow> unit io" where
  "validateObjectId ident =
     (if \<not> ObjectId_isValid ident then throwE (ValidationError ''Invalid post ID format'')
      else returnE ())"

definition getPostById :: "jsstring \<Rightarrow> populated_post io" where
  "getPostById postId =
     bindE (validateObjectId postId) (\<lambda>u.
     bindE (Post_findById postId) (\<lambda>found.
       case found of
         None \<Rightarrow> throwE (NotFoundError ''Post'')
       | Some p \<Rightarrow> populate p))"

text \<open>
  \<^verbatim>\<open>updatePost\<close>. \<^verbatim>\<open>v && v.trim().length < n\<close> looks at the length only when \<open>v\<close> is
  truthy; the loop over \<^verbatim>\<open>allowedUpdates\<close> copies a field when it is not \<^verbatim>\<open>undefined\<close>.
\<close>

definition too_short :: "jsval \<Rightarrow> nat \<Rightarrow> error + bool" where
  "too_short v n =
     (if truthy v
      then (case method_trim v of Inl e \<Rightarrow> Inl e | Inr s \<Rightarrow> Inr (length s < n))
      else Inr False)"

definition set_prop :: "jsobject \<Rightarrow> jsstring \<Rightarrow> jsval \<Rightarrow> jsobject" where
  "set_prop obj k v =
     (if k \<in> set (map fst obj) then map (\<lambda>kv. if fst kv = k then (k, v) else kv) obj
      else obj @ [(k, v)])"

definition allowedUpdates :: "jsstring list" where
  "allowedUpdates = [js ''title'', js ''content'']"

fun collect_updates :: "jsobject \<Rightarrow> jsstring list \<Rightarrow> jsobject \<Rightarrow> error + jsobject" where
  "collect_updates updateData [] updates = Inr updates"
| "collect_updates updateData (field # more_fields) updates =
     (if get_prop updateData field \<noteq> Undefined
      then (case method_trim (get_prop updateData field) of
              Inl e \<Rightarrow> Inl e
            | Inr s \<Rightarrow> collect_updates updateData more_fields (set_prop updates field (Str s)))
      else collect_updates updateData more_fields updates)"

definition updatePost :: "jsstring \<Rightarrow> jsobject \<Rightarrow> objectid \<Rightarrow> post option io" where
  "updatePost postId updateData userId =
     bindE (validateObjectId postId) (\<lambda>u.
     bindE (Post_findById postId) (\<lambda>found.
       case found of
         None \<Rightarrow> throwE (NotFoundError ''Post'')
       | Some post \<Rightarrow>
           if toString (user_id post) \<noteq> toString userId
           then throwE (AuthorizationError ''You can only update your own posts'')
           else
             bindE (liftE (too_short (get_prop updateData (js ''title'')) 3)) (\<lambda>short_title.
               if short_title
               then throwE (ValidationError ''Title must be at least 3 characters long'')
               else
                 bindE (liftE (too_short (get_prop updateData (js ''content'')) 10)) (\<lambda>short_content.
                   if short_content
                   then throwE (ValidationError ''Content must be at least 10 characters long'')
                   else
                     bindE (liftE (collect_updates updateData allowedUpdates [])) (\<lambda>updates.
                       Post_findByIdAndUpdate postId updates)))))"

text \<open>
  \<^verbatim>\<open>deletePost\<close>. The \<^verbatim>\<open>for\<close> loop over the images is inside one \<^verbatim>\<open>try\<close>: what
  \<^verbatim>\<open>getGridFS\<close> or a \<^verbatim>\<open>delete\<close> throws leaves the loop and is logged by the \<^verbatim>\<open>catch\<close>.
  The line logged for a deleted file starts with the three code units U+00E2, U+0153,
  U+2026 that the source has there.
\<close>

fun delete_images :: "image list \<Rightarrow> unit io" where
  "delete_images [] = returnE ()"
| "delete_images (im # ims) =
     bindE (bucket_delete (fileId im)) (\<lambda>u. (\<lambda>w.
       delete_images ims
         (console_log (LogInfo ([0xE2, 0x153, 0x2026] @ js '' Deleted image file: '' @ filename im)) w)))"

definition catchE :: "'a io \<Rightarrow> (error \<Rightarrow> 'a io) \<Rightarrow> 'a io" where
  "catchE m h = (\<lambda>w. case m w of (Inl e, w') \<Rightarrow> h e w' | (Inr x, w') \<Rightarrow> (Inr x, w'))"

definition deletePost :: "jsstring \<Rightarrow> objectid \<Rightarrow> string io" where
  "deletePost postId userId =
     bindE (validateObjectId postId) (\<lambda>u.
     bindE (Post_findById postId) (\<lambda>found.
       case found of
         None \<Rightarrow> throwE (NotFoundError ''Post'')
       | Some post \<Rightarrow>
           if toString (user_id post) \<noteq> toString userId
           then throwE (AuthorizationError ''You can only delete your own posts'')
           else
             bindE (if length (images post) > 0
                    then catchE (bindE getGridFS (\<lambda>g. delete_images (images post)))
                           (\<lambda>e w. (Inr (),
                              console_log (LogError ''Error deleting images from GridFS:'' e) w))
                    else returnE ()) (\<lambda>u.
             bindE (Post_findByIdAndDelete postId) (\<lambda>d.
               returnE ''Post deleted successfully''))))"

section \<open>Download endpoints\<close>

text \<open>
  A response is a status, the headers the handler has stored on it with \<^verbatim>\<open>res.set\<close>, in
  order (what \<^verbatim>\<open>res.json\<close> adds for its own body is not recorded), and either a JSON body or
  the bytes piped into it. A handler returns its response, or throws: the wrapper around it
  hands what it throws to the error middleware.
\<close>

datatype body = JsonBody jsobject | StreamBody "byte list"

record response =
  status :: nat
  headers :: "(string \<times> jsstring) list"
  res_body :: body

definition json_response :: "nat \<Rightarrow> jsobject \<Rightarrow> response" where
  "json_response code obj = \<lparr>status = code, headers = [], res_body = JsonBody obj\<rparr>"

text \<open>
  \<^verbatim>\<open>a || b\<close> on optional strings, and
  \<^verbatim>\<open>file.metadata?.contentType || file.contentType || 'image/jpeg'\<close>.
\<close>

definition or_string :: "jsstring option \<Rightarrow> jsstring \<Rightarrow> jsstring" where
  "or_string a b = (case a of None \<Rightarrow> b | Some s \<Rightarrow> if s = [] then b else s)"

definition resolve_contentType :: "stored_file \<Rightarrow> jsstring" where
  "resolve_contentType file =
     or_string (case metadata file of None \<Rightarrow> None | Some m \<Rightarrow> md_contentType m)
       (or_string (file_contentType file) (js ''image/jpeg''))"

text \<open>
  \<^verbatim>\<open>res.set(field, value)\<close>. For \<open>Content-Type\<close>, a value without a charset parameter
  (\<^verbatim>\<open>/;\s*charset\s*=/\<close>) whose type is a text type
  (\<^verbatim>\<open>/^text\/|^application\/(javascript|json)/\<close> on the part before the first \<open>;\<close>) gets
  \<open>; charset=utf-8\<close> appended. Then the header is stored, unless the value holds a code unit
  other than TAB, 0x20 to 0x7E and 0x80 to 0xFF: then the call throws.
\<close>

definition charset_here :: "jsstring \<Rightarrow> bool" where
  "charset_here s =
     (case s of
        [] \<Rightarrow> False
      | c # rest \<Rightarrow>
          c = 0x3B \<and>
          (let r = dropWhile isWhiteSpace rest
           in startsWith r (js ''charset'') \<and>
              startsWith (dropWhile isWhiteSpace (drop 7 r)) (js ''='')))"

fun has_charset :: "jsstring \<Rightarrow> bool" where
  "has_charset [] = False"
| "has_charset (c # rest) = (charset_here (c # rest) \<or> has_charset rest)"

definition text_type :: "jsstring \<Rightarrow> bool" where
  "text_type v =
     (let t = takeWhile (\<lambda>c. c \<noteq> 0x3B) v
      in startsWith t (js ''text/'') \<or> startsWith t (js ''application/javascript'') \<or>
         startsWith t (js ''application/json''))"

definition header_char_ok :: "code_unit \<Rightarrow> bool" where
  "header_char_ok c = (c = 0x09 \<or> (0x20 \<le> c \<and> c \<le> 0x7E) \<or> (0x80 \<le> c \<and> c \<le> 0xFF))"

definition res_set :: "string \<Rightarrow> jsstring \<Rightarrow> error + string \<times> jsstring" where
  "res_set field v =
     (let v' = (if field = ''Content-Type'' \<and> \<not> has_charset v \<and> text_type v
                then v @ js ''; charset=utf-8'' else v)
      in if list_all header_char_ok v' then Inr (field, v')
         else Inl (TypeError ''Invalid character in header content''))"

text \<open>
  The three \<^verbatim>\<open>res.set\<close> calls of both handlers, in order. \<open>set_headers\<close> makes the calls
  until one throws and returns the headers stored so far with what was thrown.
\<close>

definition image_headers :: "stored_file \<Rightarrow> jsstring \<Rightarrow> (string \<times> jsstring) list" where
  "image_headers file ct =
     [(''Content-Type'', ct),
      (''Content-Disposition'',
         js ''inline; filename=\"'' @
         or_string (case metadata file of None \<Rightarrow> None | Some m \<Rightarrow> originalName m) (file_name file) @
         js ''\"''),
      (''Cache-Control'', js ''public, max-age=31536000'')]"

fun set_headers ::
  "(string \<times> jsstring) list \<Rightarrow> (string \<times> jsstring) list \<Rightarrow> (string \<times> jsstring) list \<times> error option"
where
  "set_headers stored [] = (stored, None)"
| "set_headers stored ((field, v) # more_calls) =
     (case res_set field v of
        Inl e \<Rightarrow> (stored, Some e)
      | Inr h \<Rightarrow> set_headers (stored @ [h]) more_calls)"

text \<open>
  Piping the download stream into the response, on which \<open>stored\<close> are the headers set.
  The stream's \<^verbatim>\<open>error\<close> handler answers 500 on the same response, because no header
  has been sent by then.
\<close>

definition pipe_stream :: "byte list io \<Rightarrow> (string \<times> jsstring) list \<Rightarrow> response io" where
  "pipe_stream downloadStream stored = (\<lambda>w.
     case downloadStream w of
       (Inl e, w') \<Rightarrow>
         (Inr \<lparr>status = 500, headers = stored,
               res_body = JsonBody [(js ''error'', Str (js ''Error streaming image''))]\<rparr>,
          console_log (LogError ''Error streaming file:'' e) w')
     | (Inr bytes, w') \<Rightarrow>
         (Inr \<lparr>status = 200, headers = stored, res_body = StreamBody bytes\<rparr>, w'))"

text \<open>
  \<^verbatim>\<open>GET /image/:filename\<close>. What a \<^verbatim>\<open>res.set\<close> throws leaves the handler.
\<close>

definition get_image_by_filename :: "jsstring \<Rightarrow> response io" where
  "get_image_by_filename name =
     bindE getGridFS (\<lambda>g.
     bindE (bucket_find_by_name name) (\<lambda>files.
       case files of
         [] \<Rightarrow> returnE (json_response 404 [(js ''error'', Str (js ''Image not found''))])
       | file # rest \<Rightarrow>
           let ct = resolve_contentType file;
               isImage = startsWith ct (js ''image/'')
           in if isImage
              then (\<lambda>w. case set_headers [] (image_headers file ct) of
                      (stored, Some e) \<Rightarrow> (Inl e, w)
                    | (stored, None) \<Rightarrow> pipe_stream (openDownloadStreamByName name) stored w)
              else returnE (json_response 404
                     [(js ''error'', Str (js ''Not an image'')), (js ''contentType'', Str ct)])))"

text \<open>
  \<^verbatim>\<open>GET /image/id/:id\<close>. The lookup and the \<^verbatim>\<open>res.set\<close> calls are inside the \<^verbatim>\<open>try\<close>:
  its \<^verbatim>\<open>catch\<close> answers 500 on the response as it stands, with the headers stored before
  the throw.
\<close>

definition get_image_by_id :: "jsstring \<Rightarrow> response io" where
  "get_image_by_id ident =
     bindE getGridFS (\<lambda>g.
       if \<not> ObjectId_isValid ident
       then returnE (json_response 400 [(js ''error'', Str (js ''Invalid file ID''))])
       else
         catchE
           (bindE (bucket_find_by_id (new_ObjectId ident)) (\<lambda>files.
              case files of
                [] \<Rightarrow> returnE (json_response 404 [(js ''error'', Str (js ''Image not found''))])
              | file # rest \<Rightarrow>
                  let ct = resolve_contentType file
                  in (\<lambda>w. case set_headers [] (image_headers file ct) of
                        (stored, Some e) \<Rightarrow>
                          (Inr \<lparr>status = 500, headers = stored,
                                res_body = JsonBody
                                  [(js ''error'', Str (js ''Error retrieving image''))]\<rparr>, w)
                      | (stored, None) \<Rightarrow>
                          pipe_stream (openDownloadStream (new_ObjectId ident)) stored w)))
           (\<lambda>e. returnE (json_response 500 [(js ''error'', Str (js ''Error retrieving image''))])))"

section \<open>Vocabulary of the properties\<close>

text \<open>
  A request field that is a string when it is there, the length of a field after trimming,
  and the images whose deletion \<^verbatim>\<open>deletePost\<close> attempts: those up to and including the first
  one whose file the bucket does not hold (\<open>present\<close> lists the ids of the files held).
\<close>

definition str_or_absent :: "jsval \<Rightarrow> bool" where
  "str_or_absent v = (case v of Undefined \<Rightarrow> True | Null \<Rightarrow> True | Str s \<Rightarrow> True | _ \<Rightarrow> False)"

fun str_of :: "jsval \<Rightarrow> jsstring" where
  "str_of (Str s) = s"
| "str_of v = []"

definition trimmed_length :: "jsval \<Rightarrow> nat" where
  "trimmed_length v = length (trim (str_of v))"



fun is_text_update :: "path_update \<Rightarrow> bool" where
  "is_text_update (SetTitle s) = True"
| "is_text_update (SetContent s) = True"
| "is_text_update (SetUserId u) = False"
| "is_text_update (SetImages ims) = False"

text \<open>
  For a patch: a field that is a string or not there, a string field whose trimmed length is
  under a bound, and the errors that carry the name \<^verbatim>\<open>ValidationError\<close>: the service's and
  the schema validators'.
\<close>

definition str_or_undefined :: "jsval \<Rightarrow> bool" where
  "str_or_undefined v = (case v of Undefined \<Rightarrow> True | Str s \<Rightarrow> True | _ \<Rightarrow> False)"

definition short_field :: "jsval \<Rightarrow> nat \<Rightarrow> bool" where
  "short_field v n = (case v of Str s \<Rightarrow> length (trim s) < n | _ \<Rightarrow> False)"

fun is_ValidationError :: "error \<Rightarrow> bool" where
  "is_ValidationError (ValidationError m) = True"
| "is_ValidationError (SchemaValidationError m) = True"
| "is_ValidationError e = False"

section \<open>Example states\<close>

definition oid :: "string \<Rightarrow> objectid" where
  "oid s = ObjectId (js s)"

definition example_post :: post where
  "example_post =
     \<lparr>post_id = oid ''bbbbbbbbbbbbbbbbbbbbbbb1'',
      title = js ''Hi there'',
      content = js ''This is long enough content'',
      user_id = oid ''aaaaaaaaaaaaaaaaaaaaaaa1'',
      images = [\<lparr>fileId = oid ''ccccccccccccccccccccccc1'', filename = js ''00.png'',
                  contentType = js ''image/png'', size = 1\<rparr>,
                \<lparr>fileId = oid ''ccccccccccccccccccccccc2'', filename = js ''01.png'',
                  contentType = js ''image/png'', size = 1\<rparr>],
      createdAt = 5,
      updatedAt = 5\<rparr>"

text \<open>
  One post with two image references; the file of the first has already gone from the
  bucket, which holds the second and a PDF document.
\<close>

definition example_world :: world where
  "example_world =
     \<lparr>posts = [example_post],
      users = [],
      gridfs_ready = True,
      bucket = [\<lparr>file_id = oid ''ccccccccccccccccccccccc2'', file_name = js ''01.png'',
                  file_length = 1, file_contentType = None,
                  metadata = Some \<lparr>originalName = Some (js ''cat.png''), uploadedBy = None,
                                  uploadedAt = Some 4, md_contentType = Some (js ''image/png'')\<rparr>,
                  file_data = [7]\<rparr>,
                \<lparr>file_id = oid ''ccccccccccccccccccccccc3'', file_name = js ''02.pdf'',
                  file_length = 4, file_contentType = None,
                  metadata = Some \<lparr>originalName = Some (js ''doc.pdf''), uploadedBy = None,
                                  uploadedAt = Some 4,
                                  md_contentType = Some (js ''application/pdf'')\<rparr>,
                  file_data = [0x25, 0x50, 0x44, 0x46]\<rparr>],
      console = [],
      oplog = [],
      clock = 9,
      oid_source = (\<lambda>n. ObjectId (replicate 23 0x64 @ [hex_digit (n mod 16)])),
      oid_used = 0,
      random_source = (\<lambda>n. of_nat n),
      random_used = 0\<rparr>"

text \<open>Request bodies, an uploaded file and users for the examples.\<close>

definition valid_postData :: jsobject where
  "valid_postData =
     [(js ''title'', Str (js '' Hi there '')),
      (js ''content'', Str (js ''This is long enough content''))]"

definition short_title_postData :: jsobject where
  "short_title_postData =
     [(js ''title'', Str (js '' Hi '')),
      (js ''content'', Str (js ''This is long enough content''))]"

definition example_file :: uploaded_file where
  "example_file =
     \<lparr>uf_id = oid ''ccccccccccccccccccccccc2'', uf_filename = js ''01.png'',
      uf_contentType = js ''image/png'', uf_size = 1\<rparr>"

definition owner :: objectid where
  "owner = oid ''aaaaaaaaaaaaaaaaaaaaaaa1''"

definition stranger :: objectid where
  "stranger = oid ''aaaaaaaaaaaaaaaaaaaaaaa2''"

text \<open>Three posts of two users, created at different times.\<close>

definition mk_post :: "string \<Rightarrow> objectid \<Rightarrow> nat \<Rightarrow> post" where
  "mk_post i u t = \<lparr>post_id = oid i, title = js ''A title'', content = js ''Some content here'',
     user_id = u, images = [], createdAt = t, updatedAt = t\<rparr>"

definition listing_world :: world where
  "listing_world = example_world\<lparr>posts :=
     [mk_post ''bbbbbbbbbbbbbbbbbbbbbbb1'' owner 1,
      mk_post ''bbbbbbbbbbbbbbbbbbbbbbb2'' stranger 3,
      mk_post ''bbbbbbbbbbbbbbbbbbbbbbb3'' owner 2]\<rparr>"

text \<open>The example state before \<^verbatim>\<open>initGridFS\<close> has run, and two route parameters.\<close>

definition uninitialised_world :: world where
  "uninitialised_world = example_world\<lparr>gridfs_ready := False\<rparr>"

definition example_post_param :: jsstring where
  "example_post_param = js ''bbbbbbbbbbbbbbbbbbbbbbb1''"

definition malformed_param :: jsstring where
  "malformed_param = js ''not-an-id''"

text \<open>A patch that carries a new title and keys the service does not allow.\<close>

definition greedy_patch :: jsobject where
  "greedy_patch =
     [(js ''title'', Str (js '' New title '')),
      (js ''user_id'', Str (js ''aaaaaaaaaaaaaaaaaaaaaaa2'')),
      (js ''images'', Arr []),
      (js ''createdAt'', Num 0)]"

text \<open>A patch whose title is the empty string.\<close>

definition empty_title_patch :: jsobject where
  "empty_title_patch = [(js ''title'', Str [])]"

text \<open>Route parameters for the stored PDF document, and three files to upload.\<close>

definition pdf_id_param :: jsstring where
  "pdf_id_param = js ''ccccccccccccccccccccccc3''"

definition pdf_name_param :: jsstring where
  "pdf_name_param = js ''02.pdf''"

definition png_upload :: multer_file where
  "png_upload = \<lparr>originalname = js ''a.png'', mimetype = js ''image/png'', buffer = [1, 2, 3]\<rparr>"

definition php_upload :: multer_file where
  "php_upload = \<lparr>originalname = js ''a.php'', mimetype = js ''image/png'', buffer = [1, 2, 3]\<rparr>"

definition bare_upload :: multer_file where
  "bare_upload = \<lparr>originalname = js ''README'', mimetype = js ''image/png'', buffer = []\<rparr>"

text \<open>A body whose title is a number, and a patch that carries a content only.\<close>

definition number_title_postData :: jsobject where
  "number_title_postData = [(js ''title'', Num 123), (js ''content'', Str (js ''short''))]"

definition content_only_patch :: jsobject where
  "content_only_patch = [(js ''content'', Str (js '' A new, longer content ''))]"

section \<open>Basic facts\<close>

lemmas io_defs = bindE_def returnE_def throwE_def liftE_def catchE_def

lemma trim_Nil: "trim [] = []"
  by (simp add: trim_def)

lemma Post_create_ok:
  "t \<noteq> [] \<Longrightarrow> c \<noteq> [] \<Longrightarrow>
   Post_create \<lparr>p_title = t, p_content = c, p_user_id = u, p_images = ims\<rparr> w =
     (Inr \<lparr>post_id = oid_source w (oid_used w), title = t, content = c, user_id = u,
           images = (case ims of None \<Rightarrow> [] | Some xs \<Rightarrow> xs),
           createdAt = clock w, updatedAt = clock w\<rparr>,
      record_op PostCreate (w\<lparr>posts := posts w @
        [\<lparr>post_id = oid_source w (oid_used w), title = t, content = c, user_id = u,
           images = (case ims of None \<Rightarrow> [] | Some xs \<Rightarrow> xs),
           createdAt = clock w, updatedAt = clock w\<rparr>], oid_used := Suc (oid_used w)\<rparr>))"
  by (simp add: Post_create_def Let_def)

lemma valid_postData_props:
  "get_prop valid_postData (js ''title'') = Str (js '' Hi there '')"
  "get_prop valid_postData (js ''content'') = Str (js ''This is long enough content'')"
  by (simp_all add: valid_postData_def get_prop_def js_def)

lemma short_title_postData_props:
  "get_prop short_title_postData (js ''title'') = Str (js '' Hi '')"
  "get_prop short_title_postData (js ''content'') = Str (js ''This is long enough content'')"
  by (simp_all add: short_title_postData_def get_prop_def js_def)

lemma example_trims:
  "trim (js '' Hi there '') = js ''Hi there''"
  "trim (js '' Hi '') = js ''Hi''"
  "trim (js ''This is long enough content'') = js ''This is long enough content''"
  by (simp_all add: trim_def js_def isWhiteSpace_def)

lemma example_lengths:
  "trimmed_length (Str (js '' Hi there '')) = 8"
  "trimmed_length (Str (js '' Hi '')) = 2"
  "trimmed_length (Str (js ''This is long enough content'')) = 27"
  by (simp_all add: trimmed_length_def example_trims) (simp_all add: js_def)

section \<open>createPost\<close>

lemma createPost_invalid:
  assumes "str_or_absent (get_prop postData (js ''title''))"
      and "str_or_absent (get_prop postData (js ''content''))"
      and "\<not> truthy (get_prop postData (js ''title'')) \<or>
           \<not> truthy (get_prop postData (js ''content'')) \<or>
           trimmed_length (get_prop postData (js ''title'')) < 3 \<or>
           trimmed_length (get_prop postData (js ''content'')) < 10"
  shows "\<exists>msg. createPost postData userId files w = (Inl (ValidationError msg), w)"
  using assms
  by (cases "get_prop postData (js ''title'')"; cases "get_prop postData (js ''content'')")
     (auto simp: createPost_def io_defs Let_def str_or_absent_def trimmed_length_def)

lemma createPost_valid:
  assumes "get_prop postData (js ''title'') = Str t"
      and "get_prop postData (js ''content'') = Str c"
      and "3 \<le> length (trim t)" and "10 \<le> length (trim c)"
  shows "createPost postData userId files w =
     Post_create \<lparr>p_title = trim t, p_content = trim c, p_user_id = userId,
        p_images = (case files of None \<Rightarrow> None
                   | Some fs \<Rightarrow> if length fs > 0 then Some (map image_of_file fs) else None)\<rparr> w"
proof -
  have "t \<noteq> []" "c \<noteq> []" using assms(3,4) by (auto simp: trim_def)
  then show ?thesis using assms by (simp add: createPost_def io_defs Let_def)
qed

lemma images_of_files:
  "length (map image_of_file fs) = length fs \<and>
   (\<forall>i<length fs. fileId (map image_of_file fs ! i) = uf_id (fs ! i) \<and>
      filename (map image_of_file fs ! i) = uf_filename (fs ! i) \<and>
      contentType (map image_of_file fs ! i) = uf_contentType (fs ! i) \<and>
      size (map image_of_file fs ! i) = uf_size (fs ! i))"
  by (simp add: image_of_file_def)

lemma number_title_props:
  "get_prop number_title_postData (js ''title'') = Num 123"
  "get_prop number_title_postData (js ''content'') = Str (js ''short'')"
  by (simp_all add: number_title_postData_def get_prop_def js_def)

lemma short_trim: "trim (js ''short'') = js ''short''"
  by (simp add: trim_def js_def isWhiteSpace_def)

text \<open>
  A body whose title is a number and whose content, trimmed, has 5 code units: the call
  of \<^verbatim>\<open>trim\<close> on the title throws a \<open>TypeError\<close> before any length is looked at.
\<close>

theorem createPost_number_title_is_a_TypeError:
  "get_prop number_title_postData (js ''title'') = Num 123 \<and>
   get_prop number_title_postData (js ''content'') = Str (js ''short'') \<and>
   trimmed_length (Str (js ''short'')) < 10 \<and>
   createPost number_title_postData owner None example_world =
     (Inl (TypeError ''trim is not a function''), example_world)"
proof -
  have "trimmed_length (Str (js ''short'')) < 10"
    by (simp add: trimmed_length_def short_trim) (simp add: js_def)
  moreover have "createPost number_title_postData owner None example_world =
     (Inl (TypeError ''trim is not a function''), example_world)"
    by (simp add: createPost_def number_title_props io_defs Let_def) (simp add: js_def)
  ultimately show ?thesis by (simp add: number_title_props)
qed

text \<open>
  C4, as the code has it. With \<open>title\<close> and \<open>content\<close> strings when they are there, \<^verbatim>\<open>createPost\<close> throws a
  \<open>ValidationError\<close> and leaves the state as it was whenever one of them is missing
  (\<^verbatim>\<open>undefined\<close>, \<^verbatim>\<open>null\<close> or empty), the trimmed title has fewer than 3 code units or the
  trimmed content fewer than 10. Otherwise it succeeds: the record it returns is the one
  appended to the collection, holds the trimmed title and content and the caller's id, and
  its images list has one entry for each uploaded file, in order, with that file's id as
  \<open>fileId\<close> and its filename, content type and size.
\<close>

theorem createPost_validates_and_keeps_one_image_per_file:
  assumes "get_prop postData (js ''title'') = tv"
      and "get_prop postData (js ''content'') = cv"
      and "str_or_absent tv" and "str_or_absent cv"
      and "fs = (case files of None \<Rightarrow> [] | Some xs \<Rightarrow> xs)"
  shows "(\<not> truthy tv \<or> \<not> truthy cv \<or> trimmed_length tv < 3 \<or> trimmed_length cv < 10 \<longrightarrow>
            (\<exists>msg. createPost postData userId files w = (Inl (ValidationError msg), w))) \<and>
         (3 \<le> trimmed_length tv \<and> 10 \<le> trimmed_length cv \<longrightarrow>
            (\<exists>p w'. createPost postData userId files w = (Inr p, w') \<and>
               posts w' = posts w @ [p] \<and> user_id p = userId \<and>
               title p = trim (str_of tv) \<and> content p = trim (str_of cv) \<and>
               length (images p) = length fs \<and>
               (\<forall>i<length fs.
                  fileId (images p ! i) = uf_id (fs ! i) \<and>
                  filename (images p ! i) = uf_filename (fs ! i) \<and>
                  contentType (images p ! i) = uf_contentType (fs ! i) \<and>
                  size (images p ! i) = uf_size (fs ! i))))"
proof (intro conjI impI)
  assume "\<not> truthy tv \<or> \<not> truthy cv \<or> trimmed_length tv < 3 \<or> trimmed_length cv < 10"
  with assms show "\<exists>msg. createPost postData userId files w = (Inl (ValidationError msg), w)"
    using createPost_invalid [of postData userId files w] by simp
next
  assume ok: "3 \<le> trimmed_length tv \<and> 10 \<le> trimmed_length cv"
  then obtain t c where tc: "tv = Str t" "cv = Str c"
    by (cases tv; cases cv) (auto simp: trimmed_length_def trim_Nil)
  with ok have len: "3 \<le> length (trim t)" "10 \<le> length (trim c)"
    by (simp_all add: trimmed_length_def)
  then have ne: "trim t \<noteq> []" "trim c \<noteq> []" by auto
  have ims: "(case (case files of None \<Rightarrow> None
                | Some fs \<Rightarrow> if length fs > 0 then Some (map image_of_file fs) else None) of
              None \<Rightarrow> [] | Some xs \<Rightarrow> xs) = map image_of_file fs"
    using assms(5) by (auto split: option.splits)
  show "\<exists>p w'. createPost postData userId files w = (Inr p, w') \<and>
               posts w' = posts w @ [p] \<and> user_id p = userId \<and>
               title p = trim (str_of tv) \<and> content p = trim (str_of cv) \<and>
               length (images p) = length fs \<and>
               (\<forall>i<length fs.
                  fileId (images p ! i) = uf_id (fs ! i) \<and>
                  filename (images p ! i) = uf_filename (fs ! i) \<and>
                  contentType (images p ! i) = uf_contentType (fs ! i) \<and>
                  size (images p ! i) = uf_size (fs ! i))"
    using createPost_valid [OF assms(1) [unfolded tc] assms(2) [unfolded tc] len, of userId files w]
      Post_create_ok [OF ne] images_of_files [of fs] tc
    by (simp add: ims record_op_def)
qed

theorem createPost_validates_and_keeps_one_image_per_file_witness:
  "str_or_absent (Str (js '' Hi there '')) \<and>
   str_or_absent (Str (js ''This is long enough content'')) \<and>
   3 \<le> trimmed_length (Str (js '' Hi there '')) \<and>
   10 \<le> trimmed_length (Str (js ''This is long enough content'')) \<and>
   (\<exists>p w'. createPost valid_postData owner (Some [example_file]) example_world = (Inr p, w') \<and>
      posts w' = posts example_world @ [p] \<and> title p = js ''Hi there'' \<and>
      length (images p) = 1 \<and> fileId (images p ! 0) = uf_id example_file) \<and>
   str_or_absent (Str (js '' Hi '')) \<and>
   trimmed_length (Str (js '' Hi '')) < 3 \<and>
   (\<exists>msg. createPost short_title_postData owner (Some [example_file]) example_world =
      (Inl (ValidationError msg), example_world))"
proof -
  have s: "str_or_absent (Str (js '' Hi there ''))" "str_or_absent (Str (js '' Hi ''))"
    "str_or_absent (Str (js ''This is long enough content''))"
    by (simp_all add: str_or_absent_def)
  note good = createPost_validates_and_keeps_one_image_per_file
    [OF valid_postData_props s(1) s(3) refl, of owner "Some [example_file]" example_world]
  note bad = createPost_validates_and_keeps_one_image_per_file
    [OF short_title_postData_props s(2) s(3) refl, of owner "Some [example_file]" example_world]
  from good have "\<exists>p w'. createPost valid_postData owner (Some [example_file]) example_world = (Inr p, w') \<and>
      posts w' = posts example_world @ [p] \<and> title p = js ''Hi there'' \<and>
      length (images p) = 1 \<and> fileId (images p ! 0) = uf_id example_file"
    by (simp add: example_lengths example_trims) blast
  moreover from bad have "\<exists>msg. createPost short_title_postData owner (Some [example_file]) example_world =
      (Inl (ValidationError msg), example_world)"
    by (simp add: example_lengths)
  ultimately show ?thesis using s by (simp add: example_lengths)
qed

section \<open>Creation without files\<close>


lemma uploadMultiple_nothing:
  "files = None \<or> files = Some [] \<Longrightarrow> uploadMultipleToGridFS files userId w = (Inr [], w)"
  by (auto simp: uploadMultipleToGridFS_def returnE_def)

text \<open>
  C10. With a valid title and content and a file list that is \<^verbatim>\<open>null\<close>, \<^verbatim>\<open>undefined\<close> or
  empty, \<^verbatim>\<open>createPost\<close> succeeds and the post it stores has no images; and
  \<^verbatim>\<open>uploadMultipleToGridFS\<close> on such a list returns the empty array and leaves the whole
  state, the record of store calls included, as it was.
\<close>

theorem no_files_no_images:
  assumes "get_prop postData (js ''title'') = tv"
      and "get_prop postData (js ''content'') = cv"
      and "3 \<le> trimmed_length tv" and "10 \<le> trimmed_length cv"
      and "files = None \<or> files = Some []"
      and "uploads = None \<or> uploads = Some []"
  shows "(\<exists>p w'. createPost postData userId files w = (Inr p, w') \<and>
            posts w' = posts w @ [p] \<and> images p = []) \<and>
         uploadMultipleToGridFS uploads userId w = (Inr [], w)"
proof -
  from assms(3,4) obtain t c where tc: "tv = Str t" "cv = Str c"
    by (cases tv; cases cv) (auto simp: trimmed_length_def trim_Nil)
  with assms(3,4) have len: "3 \<le> length (trim t)" "10 \<le> length (trim c)"
    by (simp_all add: trimmed_length_def)
  then have ne: "trim t \<noteq> []" "trim c \<noteq> []" by auto
  have "\<exists>p w'. createPost postData userId files w = (Inr p, w') \<and>
            posts w' = posts w @ [p] \<and> images p = []"
    using createPost_valid [OF assms(1) [unfolded tc] assms(2) [unfolded tc] len, of userId files w]
      Post_create_ok [OF ne] assms(5)
    by (auto simp: record_op_def)
  then show ?thesis using uploadMultiple_nothing [OF assms(6)] by simp
qed

theorem no_files_no_images_witness:
  "3 \<le> trimmed_length (Str (js '' Hi there '')) \<and>
   10 \<le> trimmed_length (Str (js ''This is long enough content'')) \<and>
   (\<exists>p w'. createPost valid_postData owner (Some []) example_world = (Inr p, w') \<and>
      posts w' = posts example_world @ [p] \<and> images p = []) \<and>
   (\<exists>p w'. createPost valid_postData owner None example_world = (Inr p, w') \<and>
      posts w' = posts example_world @ [p] \<and> images p = []) \<and>
   uploadMultipleToGridFS (Some []) owner example_world = (Inr [], example_world) \<and>
   uploadMultipleToGridFS None owner example_world = (Inr [], example_world)"
proof -
  have len: "3 \<le> trimmed_length (Str (js '' Hi there ''))"
    "10 \<le> trimmed_length (Str (js ''This is long enough content''))"
    by (simp_all add: example_lengths)
  note a = no_files_no_images [OF valid_postData_props len, of "Some []" "Some []" owner example_world]
  note b = no_files_no_images [OF valid_postData_props len, of None None owner example_world]
  from a b len show ?thesis by simp
qed

section \<open>Listing\<close>

lemma sort_createdAt_desc_sorted:
  "sorted_wrt (\<lambda>a b. createdAt b \<le> createdAt a) (sort_createdAt_desc ps)"
proof -
  have "sorted (map createdAt (sort_key createdAt ps))" by (rule sorted_sort_key)
  then have "sorted_wrt (\<lambda>a b. createdAt a \<le> createdAt b) (sort_key createdAt ps)"
    by (simp add: sorted_map)
  then show ?thesis by (simp add: sort_createdAt_desc_def sorted_wrt_rev)
qed

lemma sort_createdAt_desc_mset: "mset (sort_createdAt_desc ps) = mset ps"
  by (simp add: sort_createdAt_desc_def)

lemma populate_all_eq:
  "populate_all ps w =
     (Inr (map (\<lambda>p. \<lparr>pp_post = p, pp_user = None\<rparr>) ps), w)"
  by (induction ps) (simp_all add: io_defs populate_def)

lemma Post_find_page:
  assumes "1 \<le> page" "1 \<le> limit"
  shows "Post_find flt ((page - 1) * limit) limit w =
     (Inr (take (nat limit) (drop (nat ((page - 1) * limit)) (sort_createdAt_desc (filter flt (posts w))))),
      record_op PostFind w)"
proof -
  have "0 \<le> (page - 1) * limit" using assms by (intro mult_nonneg_nonneg) simp_all
  then have "\<not> (page - 1) * limit < 0" by simp
  then show ?thesis using assms by (simp add: Post_find_def query_skip_def query_limit_def)
qed

lemma pages_ceiling:
  assumes "1 \<le> (limit::int)"
  shows "(\<lceil>real n / real_of_int limit\<rceil> - 1) * limit < int n \<and>
         int n \<le> \<lceil>real n / real_of_int limit\<rceil> * limit"
proof -
  have pos: "0 < real_of_int limit" using assms by simp
  define q where "q = real n / real_of_int limit"
  have qn: "q * real_of_int limit = real n" using pos by (simp add: q_def)
  have "real_of_int \<lceil>q\<rceil> - 1 < q" by linarith
  then have "(real_of_int \<lceil>q\<rceil> - 1) * real_of_int limit < q * real_of_int limit"
    using pos by (rule mult_strict_right_mono)
  then have "real_of_int ((\<lceil>q\<rceil> - 1) * limit) < real_of_int (int n)"
    by (simp add: qn)
  then have a: "(\<lceil>q\<rceil> - 1) * limit < int n" by (simp only: of_int_less_iff)
  have "q \<le> real_of_int \<lceil>q\<rceil>" by linarith
  then have "q * real_of_int limit \<le> real_of_int \<lceil>q\<rceil> * real_of_int limit"
    using pos by (simp add: mult_right_mono)
  then have "real_of_int (int n) \<le> real_of_int (\<lceil>q\<rceil> * limit)"
    by (simp add: qn)
  then have b: "int n \<le> \<lceil>q\<rceil> * limit" by (simp only: of_int_le_iff)
  from a b show ?thesis by (simp add: q_def)
qed

text \<open>
  C9. For \<open>page \<ge> 1\<close> and \<open>limit\<close> in \<open>[1, 100]\<close>, \<^verbatim>\<open>getAllPosts\<close> and
  \<^verbatim>\<open>getPostsByUser\<close> succeed. The matching posts, put in an order \<open>L\<close> of creation time
  descending, are cut to the page: \<open>(page - 1) * limit\<close> records skipped and at most
  \<open>limit\<close> returned. The total is the number of matching posts and the page count is
  \<open>\<lceil>total / limit\<rceil>\<close>, the least number of pages of \<open>limit\<close> records that hold them all.
\<close>

theorem listing_is_a_page_of_the_newest_first_order:
  assumes "1 \<le> page" and "1 \<le> limit" and "limit \<le> 100"
  shows "(\<exists>r w' L. getAllPosts (Some page) (Some limit) w = (Inr r, w') \<and>
            mset L = mset (posts w) \<and>
            sorted_wrt (\<lambda>a b. createdAt b \<le> createdAt a) L \<and>
            map pp_post (pr_posts r) = take (nat limit) (drop (nat ((page - 1) * limit)) L) \<and>
            length (pr_posts r) \<le> nat limit \<and>
            pg_total (pr_pagination r) = length (posts w) \<and>
            pg_pages (pr_pagination r) = \<lceil>real (length (posts w)) / real_of_int limit\<rceil> \<and>
            (pg_pages (pr_pagination r) - 1) * limit < int (length (posts w)) \<and>
            int (length (posts w)) \<le> pg_pages (pr_pagination r) * limit) \<and>
         (\<exists>r w' L. getPostsByUser userId (Some page) (Some limit) w = (Inr r, w') \<and>
            mset L = mset (filter (\<lambda>p. user_id p = userId) (posts w)) \<and>
            sorted_wrt (\<lambda>a b. createdAt b \<le> createdAt a) L \<and>
            pr_posts r = take (nat limit) (drop (nat ((page - 1) * limit)) L) \<and>
            length (pr_posts r) \<le> nat limit \<and>
            pg_total (pr_pagination r) = length (filter (\<lambda>p. user_id p = userId) (posts w)) \<and>
            pg_pages (pr_pagination r) =
              \<lceil>real (length (filter (\<lambda>p. user_id p = userId) (posts w))) / real_of_int limit\<rceil> \<and>
            (pg_pages (pr_pagination r) - 1) * limit <
              int (length (filter (\<lambda>p. user_id p = userId) (posts w))) \<and>
            int (length (filter (\<lambda>p. user_id p = userId) (posts w))) \<le>
              pg_pages (pr_pagination r) * limit)"
proof (intro conjI)
  let ?L = "sort_createdAt_desc (filter (\<lambda>p. True) (posts w))"
  let ?page = "take (nat limit) (drop (nat ((page - 1) * limit)) ?L)"
  have run: "getAllPosts (Some page) (Some limit) w =
     (Inr \<lparr>pr_posts = map (\<lambda>p. \<lparr>pp_post = p, pp_user = None\<rparr>) ?page,
            pr_pagination = \<lparr>pg_page = page, pg_limit = limit, pg_total = length (posts w),
              pg_pages = \<lceil>real (length (posts w)) / real_of_int limit\<rceil>\<rparr>\<rparr>,
      record_op PostCount (record_op PostFind w))"
    using Post_find_page [OF assms(1,2), of "\<lambda>p. True" w]
    by (simp add: getAllPosts_def io_defs populate_all_eq Post_countDocuments_def record_op_def)
  show "\<exists>r w' L. getAllPosts (Some page) (Some limit) w = (Inr r, w') \<and>
            mset L = mset (posts w) \<and>
            sorted_wrt (\<lambda>a b. createdAt b \<le> createdAt a) L \<and>
            map pp_post (pr_posts r) = take (nat limit) (drop (nat ((page - 1) * limit)) L) \<and>
            length (pr_posts r) \<le> nat limit \<and>
            pg_total (pr_pagination r) = length (posts w) \<and>
            pg_pages (pr_pagination r) = \<lceil>real (length (posts w)) / real_of_int limit\<rceil> \<and>
            (pg_pages (pr_pagination r) - 1) * limit < int (length (posts w)) \<and>
            int (length (posts w)) \<le> pg_pages (pr_pagination r) * limit"
    using pages_ceiling [OF assms(2), of "length (posts w)"]
      sort_createdAt_desc_sorted [of "posts w"] sort_createdAt_desc_mset [of "posts w"]
    unfolding run
    by (intro exI [of _ "sort_createdAt_desc (posts w)"] exI conjI)
       (rule refl, simp_all add: comp_def)
next
  let ?flt = "\<lambda>p. user_id p = userId"
  let ?L = "sort_createdAt_desc (filter ?flt (posts w))"
  have run: "getPostsByUser userId (Some page) (Some limit) w =
     (Inr \<lparr>pr_posts = take (nat limit) (drop (nat ((page - 1) * limit)) ?L),
            pr_pagination = \<lparr>pg_page = page, pg_limit = limit,
              pg_total = length (filter ?flt (posts w)),
              pg_pages = \<lceil>real (length (filter ?flt (posts w))) / real_of_int limit\<rceil>\<rparr>\<rparr>,
      record_op PostCount (record_op PostFind w))"
    using Post_find_page [OF assms(1,2), of ?flt w]
    by (simp add: getPostsByUser_def io_defs Post_countDocuments_def record_op_def)
  show "\<exists>r w' L. getPostsByUser userId (Some page) (Some limit) w = (Inr r, w') \<and>
            mset L = mset (filter ?flt (posts w)) \<and>
            sorted_wrt (\<lambda>a b. createdAt b \<le> createdAt a) L \<and>
            pr_posts r = take (nat limit) (drop (nat ((page - 1) * limit)) L) \<and>
            length (pr_posts r) \<le> nat limit \<and>
            pg_total (pr_pagination r) = length (filter ?flt (posts w)) \<and>
            pg_pages (pr_pagination r) =
              \<lceil>real (length (filter ?flt (posts w))) / real_of_int limit\<rceil> \<and>
            (pg_pages (pr_pagination r) - 1) * limit < int (length (filter ?flt (posts w))) \<and>
            int (length (filter ?flt (posts w))) \<le> pg_pages (pr_pagination r) * limit"
    using pages_ceiling [OF assms(2), of "length (filter ?flt (posts w))"]
      sort_createdAt_desc_sorted [of "filter ?flt (posts w)"]
      sort_createdAt_desc_mset [of "filter ?flt (posts w)"]
    unfolding run
    by (intro exI [of _ ?L] exI conjI) (rule refl, simp_all)
qed

lemma listing_world_counts:
  "length (filter (\<lambda>p. user_id p = owner) (posts listing_world)) = 2"
  "length (posts listing_world) = 3"
  by (simp_all add: listing_world_def mk_post_def owner_def stranger_def oid_def js_def)

theorem listing_is_a_page_of_the_newest_first_order_witness:
  "(1::int) \<le> 2 \<and> (1::int) \<le> 1 \<and> (1::int) \<le> 100 \<and>
   (\<exists>r w'. getAllPosts (Some 2) (Some 1) listing_world = (Inr r, w') \<and>
      length (pr_posts r) \<le> 1 \<and> pg_total (pr_pagination r) = 3 \<and>
      pg_pages (pr_pagination r) = 3) \<and>
   (\<exists>r w'. getPostsByUser owner (Some 2) (Some 1) listing_world = (Inr r, w') \<and>
      length (pr_posts r) \<le> 1 \<and> pg_total (pr_pagination r) = 2 \<and>
      pg_pages (pr_pagination r) = 2)"
proof -
  have h: "(1::int) \<le> 2" "(1::int) \<le> 1" "(1::int) \<le> 100" by simp_all
  note page = listing_is_a_page_of_the_newest_first_order [OF h, of listing_world owner]
  from page have "\<exists>r w'. getAllPosts (Some 2) (Some 1) listing_world = (Inr r, w') \<and>
      length (pr_posts r) \<le> 1 \<and> pg_total (pr_pagination r) = 3 \<and>
      pg_pages (pr_pagination r) = 3"
    by (simp add: listing_world_counts) blast
  moreover from page have "\<exists>r w'. getPostsByUser owner (Some 2) (Some 1) listing_world = (Inr r, w') \<and>
      length (pr_posts r) \<le> 1 \<and> pg_total (pr_pagination r) = 2 \<and>
      pg_pages (pr_pagination r) = 2"
    by (simp add: listing_world_counts) blast
  ultimately show ?thesis by simp
qed

section \<open>Ownership\<close>

lemma toString_inject: "toString a = toString b \<longleftrightarrow> a = b"
  by (cases a; cases b) simp

lemma Post_findById_valid:
  "ObjectId_isValid postId \<Longrightarrow>
   Post_findById postId w =
     (Inr (find (\<lambda>p. post_id p = new_ObjectId postId) (posts w)),
      record_op (PostFindById postId) w)"
  by (simp add: Post_findById_def cast_id_def record_op_def Let_def)

lemma example_post_param_valid: "ObjectId_isValid example_post_param"
  by (simp add: example_post_param_def ObjectId_isValid_def isHexDigit_def js_def)

lemma example_post_found:
  "find (\<lambda>p. post_id p = new_ObjectId example_post_param) (posts example_world) = Some example_post"
  by (simp add: example_post_param_def example_world_def example_post_def new_ObjectId_def
      hex_lower_def oid_def js_def)

lemma example_post_owner: "user_id example_post = owner" "user_id example_post \<noteq> stranger"
  by (simp_all add: example_post_def owner_def stranger_def oid_def js_def)

text \<open>
  C3. When the post exists and the requesting user is not its owner, \<^verbatim>\<open>updatePost\<close> (whatever
  the patch holds) and \<^verbatim>\<open>deletePost\<close> throw an \<open>AuthorizationError\<close>; all they have done by
  then is look the post up: the posts, with their image references, and the bucket are as
  before.
\<close>

theorem only_the_owner_updates_or_deletes:
  assumes "ObjectId_isValid postId"
      and "find (\<lambda>q. post_id q = new_ObjectId postId) (posts w) = Some p"
      and "user_id p \<noteq> userId"
  shows "(\<exists>msg w'. updatePost postId updateData userId w = (Inl (AuthorizationError msg), w') \<and>
            posts w' = posts w \<and> bucket w' = bucket w \<and>
            oplog w' = oplog w @ [PostFindById postId]) \<and>
         (\<exists>msg w'. deletePost postId userId w = (Inl (AuthorizationError msg), w') \<and>
            posts w' = posts w \<and> bucket w' = bucket w \<and>
            oplog w' = oplog w @ [PostFindById postId])"
  using assms
  by (simp add: updatePost_def deletePost_def validateObjectId_def io_defs Post_findById_valid
      toString_inject record_op_def)

theorem only_the_owner_updates_or_deletes_witness:
  "ObjectId_isValid example_post_param \<and>
   find (\<lambda>q. post_id q = new_ObjectId example_post_param) (posts example_world) = Some example_post \<and>
   user_id example_post \<noteq> stranger \<and>
   (\<exists>msg w'. updatePost example_post_param short_title_postData stranger example_world =
        (Inl (AuthorizationError msg), w') \<and>
      posts w' = posts example_world \<and> bucket w' = bucket example_world) \<and>
   (\<exists>msg w'. deletePost example_post_param stranger example_world =
        (Inl (AuthorizationError msg), w') \<and>
      posts w' = posts example_world \<and> bucket w' = bucket example_world)"
proof -
  note t = only_the_owner_updates_or_deletes
    [OF example_post_param_valid example_post_found example_post_owner(2),
     of short_title_postData]
  from t have "\<exists>msg w'. updatePost example_post_param short_title_postData stranger example_world =
        (Inl (AuthorizationError msg), w') \<and>
      posts w' = posts example_world \<and> bucket w' = bucket example_world"
    by blast
  moreover from t have "\<exists>msg w'. deletePost example_post_param stranger example_world =
        (Inl (AuthorizationError msg), w') \<and>
      posts w' = posts example_world \<and> bucket w' = bucket example_world"
    by blast
  ultimately show ?thesis
    using example_post_param_valid example_post_found example_post_owner(2) by simp
qed

section \<open>Malformed ids\<close>

lemma malformed_param_invalid: "\<not> ObjectId_isValid malformed_param"
  by (simp add: malformed_param_def ObjectId_isValid_def js_def)

text \<open>
  Before \<^verbatim>\<open>initGridFS\<close> has run, the download-by-id handler throws on its first line, ahead
  of the id check: a malformed id gets no 400 response there.
\<close>

theorem download_by_id_before_initGridFS:
  "\<not> ObjectId_isValid malformed_param \<and>
   get_image_by_id malformed_param uninitialised_world =
     (Inl (GenericError ''GridFS not initialized. Call initGridFS() first.''), uninitialised_world)"
  by (simp add: malformed_param_invalid get_image_by_id_def getGridFS_def io_defs
      uninitialised_world_def)

text \<open>
  C8, as the code has it. For an identifier that is not a well-formed object id,
  \<^verbatim>\<open>getPostById\<close>, \<^verbatim>\<open>updatePost\<close> and \<^verbatim>\<open>deletePost\<close> throw a \<open>ValidationError\<close> and the
  download-by-id handler, once \<^verbatim>\<open>initGridFS\<close> has run, answers 400; before that,
  \<^verbatim>\<open>getGridFS\<close> throws ahead of the id check. In every case the state is left as it was: no
  call on the document store or on the bucket has been made.
\<close>

theorem malformed_id_is_refused_before_any_query:
  assumes "\<not> ObjectId_isValid ident"
  shows "getPostById ident w = (Inl (ValidationError ''Invalid post ID format''), w) \<and>
         updatePost ident updateData userId w = (Inl (ValidationError ''Invalid post ID format''), w) \<and>
         deletePost ident userId w = (Inl (ValidationError ''Invalid post ID format''), w) \<and>
         get_image_by_id ident w =
           (if gridfs_ready w
            then Inr \<lparr>status = 400, headers = [],
                      res_body = JsonBody [(js ''error'', Str (js ''Invalid file ID''))]\<rparr>
            else Inl (GenericError ''GridFS not initialized. Call initGridFS() first.''), w)"
  using assms
  by (simp add: getPostById_def updatePost_def deletePost_def get_image_by_id_def
      validateObjectId_def getGridFS_def io_defs json_response_def)

theorem malformed_id_is_refused_before_any_query_witness:
  "\<not> ObjectId_isValid malformed_param \<and>
   getPostById malformed_param example_world =
     (Inl (ValidationError ''Invalid post ID format''), example_world) \<and>
   updatePost malformed_param valid_postData owner example_world =
     (Inl (ValidationError ''Invalid post ID format''), example_world) \<and>
   deletePost malformed_param owner example_world =
     (Inl (ValidationError ''Invalid post ID format''), example_world) \<and>
   get_image_by_id malformed_param example_world =
     (Inr \<lparr>status = 400, headers = [],
           res_body = JsonBody [(js ''error'', Str (js ''Invalid file ID''))]\<rparr>, example_world)"
proof -
  have "gridfs_ready example_world" by (simp add: example_world_def)
  then show ?thesis
    using malformed_id_is_refused_before_any_query
      [OF malformed_param_invalid, of example_world valid_postData owner]
      malformed_param_invalid
    by simp
qed

section \<open>Deleting a post\<close>














section \<open>Updating a post\<close>

lemma set_prop_keys: "fst ` set (set_prop obj k v) = insert k (fst ` set obj)"
proof (cases "k \<in> set (map fst obj)")
  case True
  have "map fst (map (\<lambda>kv. if fst kv = k then (k, v) else kv) obj) = map fst obj"
    by (induction obj) auto
  then have "set (map fst (map (\<lambda>kv. if fst kv = k then (k, v) else kv) obj)) = set (map fst obj)"
    by (rule arg_cong)
  moreover have "set_prop obj k v = map (\<lambda>kv. if fst kv = k then (k, v) else kv) obj"
    using True by (simp add: set_prop_def)
  ultimately have "set (map fst (set_prop obj k v)) = set (map fst obj)" by (simp only:)
  with True show ?thesis by (simp only: set_map) auto
next
  case False
  then show ?thesis by (simp add: set_prop_def)
qed

lemma collect_updates_keys:
  "collect_updates d fs acc = Inr u \<Longrightarrow> fst ` set u \<subseteq> fst ` set acc \<union> set fs"
proof (induction fs arbitrary: acc)
  case Nil
  then show ?case by simp
next
  case (Cons f fs)
  show ?case
  proof (cases "get_prop d f \<noteq> Undefined")
    case True
    with Cons.prems obtain s where
      "collect_updates d fs (set_prop acc f (Str s)) = Inr u"
      by (auto split: sum.splits)
    from Cons.IH [OF this] show ?thesis by (auto simp: set_prop_keys)
  next
    case False
    with Cons.prems have "collect_updates d fs acc = Inr u" by simp
    from Cons.IH [OF this] show ?thesis by auto
  qed
qed

lemma cast_updates_text:
  "cast_updates u = Inr us \<Longrightarrow> fst ` set u \<subseteq> {js ''title'', js ''content''} \<Longrightarrow>
   list_all is_text_update us"
proof (induction u arbitrary: us)
  case Nil
  then show ?case by simp
next
  case (Cons kv kvs)
  obtain k v where kv: "kv = (k, v)" by (cases kv)
  from Cons.prems(2) kv have k: "k = js ''title'' \<or> k = js ''content''" by auto
  from Cons.prems(1) obtain x us' where
    x: "cast_update kv = Inr x" and us': "cast_updates kvs = Inr us'"
    and us: "us = (case x of None \<Rightarrow> us' | Some y \<Rightarrow> y # us')"
    by (auto split: sum.splits)
  from Cons.prems(2) have "fst ` set kvs \<subseteq> {js ''title'', js ''content''}" by auto
  from Cons.IH [OF us' this] have rest: "list_all is_text_update us'" .
  from x k kv have "case x of None \<Rightarrow> True | Some y \<Rightarrow> is_text_update y"
    by (auto simp: cast_update_def split: jsval.splits if_splits)
  with rest us show ?case by (auto split: option.splits)
qed

lemma fold_text_updates:
  "list_all is_text_update us \<Longrightarrow>
   post_id (fold apply_update us p) = post_id p \<and>
   user_id (fold apply_update us p) = user_id p \<and>
   images (fold apply_update us p) = images p \<and>
   createdAt (fold apply_update us p) = createdAt p"
proof (induction us arbitrary: p)
  case Nil
  then show ?case by simp
next
  case (Cons x xs)
  then show ?case by (cases x) simp_all
qed

lemma update_first_map:
  "find P ps = Some p \<Longrightarrow> f p' = f p \<Longrightarrow> map f (update_first P p' ps) = map f ps"
  by (induction ps) (auto split: if_splits)

lemma Post_findByIdAndUpdate_frame:
  assumes "fst ` set updates \<subseteq> {js ''title'', js ''content''}"
      and "Post_findByIdAndUpdate postId updates w = (r, w')"
  shows "map post_id (posts w') = map post_id (posts w) \<and>
         map user_id (posts w') = map user_id (posts w) \<and>
         map images (posts w') = map images (posts w) \<and>
         map createdAt (posts w') = map createdAt (posts w) \<and>
         bucket w' = bucket w"
proof (cases "cast_id postId")
  case (Inl e)
  with assms(2) show ?thesis by (auto simp: Post_findByIdAndUpdate_def record_op_def Let_def)
next
  case oid: (Inr i)
  show ?thesis
  proof (cases "cast_updates updates")
    case (Inl e)
    with oid assms(2) show ?thesis
      by (auto simp: Post_findByIdAndUpdate_def record_op_def Let_def)
  next
    case us: (Inr us)
    note keeps = fold_text_updates [OF cast_updates_text [OF us assms(1)]]
    show ?thesis
    proof (cases "find (\<lambda>p. post_id p = i) (posts w)")
      case None
      with oid us assms(2) show ?thesis
        by (auto simp: Post_findByIdAndUpdate_def record_op_def Let_def)
    next
      case (Some p)
      define p' where "p' = (fold apply_update us p)\<lparr>updatedAt := clock w\<rparr>"
      have same: "post_id p' = post_id p" "user_id p' = user_id p" "images p' = images p"
        "createdAt p' = createdAt p"
        using keeps [of p] by (simp_all add: p'_def)
      from oid us Some assms(2)
      have w': "posts w' = update_first (\<lambda>p. post_id p = i) p' (posts w)" "bucket w' = bucket w"
        by (auto simp: Post_findByIdAndUpdate_def record_op_def Let_def p'_def)
      show ?thesis
        using update_first_map [OF Some, of post_id p'] update_first_map [OF Some, of user_id p']
          update_first_map [OF Some, of images p'] update_first_map [OF Some, of createdAt p']
        by (simp add: w' same)
    qed
  qed
qed

lemma updatePost_frame:
  assumes "updatePost postId updateData userId w = (r, w')"
  shows "map post_id (posts w') = map post_id (posts w) \<and>
         map user_id (posts w') = map user_id (posts w) \<and>
         map images (posts w') = map images (posts w) \<and>
         map createdAt (posts w') = map createdAt (posts w) \<and>
         bucket w' = bucket w"
proof (cases "ObjectId_isValid postId")
  case False
  with assms show ?thesis by (auto simp: updatePost_def validateObjectId_def io_defs)
next
  case valid: True
  define w1 where "w1 = record_op (PostFindById postId) w"
  have w1: "posts w1 = posts w" "bucket w1 = bucket w" by (simp_all add: w1_def record_op_def)
  show ?thesis
  proof (cases "collect_updates updateData allowedUpdates []")
    case (Inl e)
    with valid assms have "w' = w1"
      by (auto simp: updatePost_def validateObjectId_def io_defs Post_findById_valid w1_def
          split: option.splits if_splits sum.splits)
    then show ?thesis by (simp add: w1)
  next
    case (Inr updates)
    from collect_updates_keys [OF Inr]
    have keys: "fst ` set updates \<subseteq> {js ''title'', js ''content''}"
      by (auto simp: allowedUpdates_def)
    from valid assms Inr
    have "w' = w1 \<or> (\<exists>r'. Post_findByIdAndUpdate postId updates w1 = (r', w'))"
      by (auto simp: updatePost_def validateObjectId_def io_defs Post_findById_valid w1_def
          split: option.splits if_splits sum.splits)
    then show ?thesis
    proof
      assume "w' = w1"
      then show ?thesis by (simp add: w1)
    next
      assume "\<exists>r'. Post_findByIdAndUpdate postId updates w1 = (r', w')"
      then obtain r' where "Post_findByIdAndUpdate postId updates w1 = (r', w')" ..
      from Post_findByIdAndUpdate_frame [OF keys this] show ?thesis by (simp add: w1)
    qed
  qed
qed

text \<open>
  C6. Whatever the patch holds and whoever asks, the posts stored after \<^verbatim>\<open>updatePost\<close> are
  the posts stored before with the same ids, owners, image lists and creation times, in the
  same order, and the bucket is untouched: only \<open>title\<close>, \<open>content\<close> and the managed
  \<open>updatedAt\<close> of a post can differ.
\<close>

theorem updatePost_changes_only_title_and_content:
  "map post_id (posts (snd (updatePost postId updateData userId w))) = map post_id (posts w) \<and>
   map user_id (posts (snd (updatePost postId updateData userId w))) = map user_id (posts w) \<and>
   map images (posts (snd (updatePost postId updateData userId w))) = map images (posts w) \<and>
   map createdAt (posts (snd (updatePost postId updateData userId w))) = map createdAt (posts w) \<and>
   bucket (snd (updatePost postId updateData userId w)) = bucket w"
  using updatePost_frame [of postId updateData userId w] by (simp add: prod_eq_iff)

lemma greedy_patch_props:
  "get_prop greedy_patch (js ''title'') = Str (js '' New title '')"
  "get_prop greedy_patch (js ''content'') = Undefined"
  by (simp_all add: greedy_patch_def get_prop_def js_def)

lemma greedy_patch_trim: "trim (js '' New title '') = js ''New title''"
  by (simp add: trim_def js_def isWhiteSpace_def)

lemma greedy_patch_updates:
  "collect_updates greedy_patch allowedUpdates [] = Inr [(js ''title'', Str (js ''New title''))]"
  by (simp add: allowedUpdates_def greedy_patch_props greedy_patch_trim set_prop_def)

lemma greedy_patch_cast:
  "cast_updates [(js ''title'', Str (js ''New title''))] = Inr [SetTitle (js ''New title'')]"
  by (simp add: cast_update_def) (simp add: js_def)

lemma example_post_id:
  "posts example_world = [example_post]"
  "post_id example_post = new_ObjectId example_post_param"
  by (simp_all add: example_world_def example_post_def example_post_param_def new_ObjectId_def
      hex_lower_def oid_def js_def)

lemma greedy_patch_run:
  "map title (posts (snd (updatePost example_post_param greedy_patch owner example_world))) =
     [js ''New title'']"
proof -
  define w1 where "w1 = record_op (PostFindById example_post_param) example_world"
  have short: "too_short (Str (js '' New title '')) 3 = Inr False"
    "too_short Undefined 10 = Inr False"
    by (simp_all add: too_short_def greedy_patch_trim) (simp_all add: js_def)
  have step1: "updatePost example_post_param greedy_patch owner example_world =
     Post_findByIdAndUpdate example_post_param [(js ''title'', Str (js ''New title''))] w1"
    by (simp add: updatePost_def validateObjectId_def io_defs Post_findById_valid
        example_post_param_valid example_post_found example_post_owner greedy_patch_props short
        greedy_patch_updates w1_def)
  have w1: "posts w1 = [example_post]" by (simp add: w1_def record_op_def example_post_id)
  have step2: "posts (snd (Post_findByIdAndUpdate example_post_param
       [(js ''title'', Str (js ''New title''))] w1)) =
     [(example_post\<lparr>title := js ''New title''\<rparr>)\<lparr>updatedAt := clock w1\<rparr>]"
    by (simp add: Post_findByIdAndUpdate_def cast_id_def example_post_param_valid
        greedy_patch_cast Let_def record_op_def w1 example_post_id(2) del: cast_updates.simps)
  show ?thesis by (simp add: step1 step2)
qed

theorem updatePost_changes_only_title_and_content_witness:
  "map title (posts example_world) = [js ''Hi there''] \<and>
   map title (posts (snd (updatePost example_post_param greedy_patch owner example_world))) =
     [js ''New title''] \<and>
   map user_id (posts (snd (updatePost example_post_param greedy_patch owner example_world))) =
     [owner] \<and>
   map images (posts (snd (updatePost example_post_param greedy_patch owner example_world))) =
     [images example_post] \<and>
   map createdAt (posts (snd (updatePost example_post_param greedy_patch owner example_world))) =
     [5]"
proof -
  have before: "map title (posts example_world) = [js ''Hi there'']"
    "map user_id (posts example_world) = [owner]"
    "map images (posts example_world) = [images example_post]"
    "map createdAt (posts example_world) = [5]"
    by (simp_all add: example_world_def example_post_def owner_def)
  from updatePost_changes_only_title_and_content
    [of example_post_param greedy_patch owner example_world]
  show ?thesis by (simp add: before greedy_patch_run)
qed

section \<open>Validation of a patch\<close>

lemma updatePost_short_title_rejected:
  assumes "ObjectId_isValid postId"
      and "find (\<lambda>q. post_id q = new_ObjectId postId) (posts w) = Some p"
      and "user_id p = userId"
      and "get_prop updateData (js ''title'') = Str s" and "s \<noteq> []" and "length (trim s) < 3"
  shows "updatePost postId updateData userId w =
     (Inl (ValidationError ''Title must be at least 3 characters long''),
      record_op (PostFindById postId) w)"
  using assms
  by (simp add: updatePost_def validateObjectId_def io_defs Post_findById_valid too_short_def)

lemma updatePost_short_content_rejected:
  assumes "ObjectId_isValid postId"
      and "find (\<lambda>q. post_id q = new_ObjectId postId) (posts w) = Some p"
      and "user_id p = userId"
      and "get_prop updateData (js ''title'') = Undefined"
      and "get_prop updateData (js ''content'') = Str s" and "s \<noteq> []" and "length (trim s) < 10"
  shows "updatePost postId updateData userId w =
     (Inl (ValidationError ''Content must be at least 10 characters long''),
      record_op (PostFindById postId) w)"
  using assms
  by (simp add: updatePost_def validateObjectId_def io_defs Post_findById_valid too_short_def)

lemma empty_title_patch_props:
  "get_prop empty_title_patch (js ''title'') = Str []"
  "get_prop empty_title_patch (js ''content'') = Undefined"
  by (simp_all add: empty_title_patch_def get_prop_def js_def)

lemma empty_title_patch_updates:
  "collect_updates empty_title_patch allowedUpdates [] = Inr [(js ''title'', Str [])]"
  by (simp add: allowedUpdates_def empty_title_patch_props trim_Nil set_prop_def)

lemma empty_title_cast:
  "cast_updates [(js ''title'', Str [])] = Inl (SchemaValidationError ''Path `title` is required.'')"
  by (simp add: cast_update_def)

text \<open>
  The patch \<^verbatim>\<open>{ title: '' }\<close>, sent by the owner of an existing post: the service's length
  check does not look at the empty string (it is falsy), the loop over the allowed fields
  copies it (it is not \<^verbatim>\<open>undefined\<close>), and the schema validator of the model refuses it.
\<close>

lemma empty_title_patch_run:
  "get_prop empty_title_patch (js ''title'') = Str [] \<and>
   trimmed_length (Str []) < 3 \<and>
   too_short (get_prop empty_title_patch (js ''title'')) 3 = Inr False \<and>
   collect_updates empty_title_patch allowedUpdates [] = Inr [(js ''title'', Str [])] \<and>
   updatePost example_post_param empty_title_patch owner example_world =
     (Inl (SchemaValidationError ''Path `title` is required.''),
      record_op (PostFindByIdAndUpdate example_post_param)
        (record_op (PostFindById example_post_param) example_world))"
proof -
  have short: "too_short (Str []) 3 = Inr False" "too_short Undefined 10 = Inr False"
    by (simp_all add: too_short_def)
  have "updatePost example_post_param empty_title_patch owner example_world =
     Post_findByIdAndUpdate example_post_param [(js ''title'', Str [])]
       (record_op (PostFindById example_post_param) example_world)"
    by (simp add: updatePost_def validateObjectId_def io_defs Post_findById_valid
        example_post_param_valid example_post_found example_post_owner empty_title_patch_props
        short empty_title_patch_updates)
  moreover have "Post_findByIdAndUpdate example_post_param [(js ''title'', Str [])]
       (record_op (PostFindById example_post_param) example_world) =
     (Inl (SchemaValidationError ''Path `title` is required.''),
      record_op (PostFindByIdAndUpdate example_post_param)
        (record_op (PostFindById example_post_param) example_world))"
    by (simp add: Post_findByIdAndUpdate_def cast_id_def example_post_param_valid
        empty_title_cast Let_def del: cast_updates.simps)
  ultimately show ?thesis
    by (simp add: empty_title_patch_props short empty_title_patch_updates trimmed_length_def
        trim_Nil)
qed

lemma too_short_Str: "too_short (Str s) n = Inr (s \<noteq> [] \<and> length (trim s) < n)"
  by (simp add: too_short_def)

lemma too_short_Undefined: "too_short Undefined n = Inr False"
  by (simp add: too_short_def)

lemma keys_differ: "js ''content'' \<noteq> js ''title''" "js ''title'' \<noteq> js ''content''"
  by (simp_all add: js_def)

lemma collect_updates_typed:
  assumes "get_prop d (js ''title'') = tv" and "get_prop d (js ''content'') = cv"
      and "str_or_undefined tv" and "str_or_undefined cv"
  shows "collect_updates d allowedUpdates [] =
     Inr ((case tv of Str t \<Rightarrow> [(js ''title'', Str (trim t))] | _ \<Rightarrow> []) @
          (case cv of Str c \<Rightarrow> [(js ''content'', Str (trim c))] | _ \<Rightarrow> []))"
  using assms
  by (cases tv; cases cv)
     (simp_all add: allowedUpdates_def str_or_undefined_def set_prop_def keys_differ)

lemma cast_updates_typed:
  "cast_updates ((case tv of Str t \<Rightarrow> [(js ''title'', Str (trim t))] | _ \<Rightarrow> []) @
          (case cv of Str c \<Rightarrow> [(js ''content'', Str (trim c))] | _ \<Rightarrow> [])) =
   (case tv of
      Str t \<Rightarrow>
        if trim t = [] then Inl (SchemaValidationError ''Path `title` is required.'')
        else (case cv of
                Str c \<Rightarrow> if trim c = [] then Inl (SchemaValidationError ''Path `content` is required.'')
                         else Inr [SetTitle (trim t), SetContent (trim c)]
              | _ \<Rightarrow> Inr [SetTitle (trim t)])
    | _ \<Rightarrow>
        (case cv of
           Str c \<Rightarrow> if trim c = [] then Inl (SchemaValidationError ''Path `content` is required.'')
                    else Inr [SetContent (trim c)]
         | _ \<Rightarrow> Inr []))"
  by (cases tv; cases cv) (simp_all add: cast_update_def keys_differ)

lemma updatePost_by_owner_typed:
  assumes "ObjectId_isValid postId"
      and "find (\<lambda>q. post_id q = new_ObjectId postId) (posts w) = Some p"
      and "user_id p = userId"
      and "get_prop updateData (js ''title'') = tv"
      and "get_prop updateData (js ''content'') = cv"
      and "str_or_undefined tv" and "str_or_undefined cv"
  shows "updatePost postId updateData userId w =
     (if \<exists>t. tv = Str t \<and> t \<noteq> [] \<and> length (trim t) < 3
      then (Inl (ValidationError ''Title must be at least 3 characters long''),
            record_op (PostFindById postId) w)
      else if \<exists>c. cv = Str c \<and> c \<noteq> [] \<and> length (trim c) < 10
      then (Inl (ValidationError ''Content must be at least 10 characters long''),
            record_op (PostFindById postId) w)
      else Post_findByIdAndUpdate postId
             ((case tv of Str t \<Rightarrow> [(js ''title'', Str (trim t))] | _ \<Rightarrow> []) @
              (case cv of Str c \<Rightarrow> [(js ''content'', Str (trim c))] | _ \<Rightarrow> []))
             (record_op (PostFindById postId) w))"
proof -
  note cu = collect_updates_typed [OF assms(4,5,6,7)]
  have typed: "str_or_undefined v \<Longrightarrow>
      too_short v n = Inr (\<exists>s. v = Str s \<and> s \<noteq> [] \<and> length (trim s) < n)" for v n
    by (cases v) (simp_all add: str_or_undefined_def too_short_Str too_short_Undefined)
  note ts = typed [OF assms(6), of 3] typed [OF assms(7), of 10]
  show ?thesis
    using assms(1,2,3)
    by (simp add: updatePost_def validateObjectId_def io_defs Post_findById_valid
        assms(4,5) ts cu del: collect_updates.simps) blast
qed

lemma Post_findByIdAndUpdate_found:
  assumes "ObjectId_isValid postId"
      and "find (\<lambda>q. post_id q = new_ObjectId postId) (posts w) = Some p"
  shows "Post_findByIdAndUpdate postId updates w =
     (case cast_updates updates of
        Inl e \<Rightarrow> (Inl e, record_op (PostFindByIdAndUpdate postId) w)
      | Inr us \<Rightarrow>
          (Inr (Some ((fold apply_update us p)\<lparr>updatedAt := clock w\<rparr>)),
           (record_op (PostFindByIdAndUpdate postId) w)
             \<lparr>posts := update_first (\<lambda>q. post_id q = new_ObjectId postId)
                 ((fold apply_update us p)\<lparr>updatedAt := clock w\<rparr>) (posts w)\<rparr>))"
  using assms
  by (simp add: Post_findByIdAndUpdate_def cast_id_def record_op_def Let_def split: sum.splits)

text \<open>
  C5, as the code has it. For a patch whose \<open>title\<close> and \<open>content\<close> are strings when they
  are there, sent by the owner of an existing post. If the title, trimmed, has fewer than 3
  code units or the content fewer than 10, \<^verbatim>\<open>updatePost\<close> throws a \<^verbatim>\<open>ValidationError\<close> (the
  service's, or for an empty string the schema validator's) and the stored posts are as
  before. Otherwise it succeeds: a field that is there is stored trimmed, and a field that
  is not there is neither validated nor modified.
\<close>

theorem updatePost_validates_the_string_fields_of_the_patch:
  assumes "ObjectId_isValid postId"
      and "find (\<lambda>q. post_id q = new_ObjectId postId) (posts w) = Some p"
      and "user_id p = userId"
      and "get_prop updateData (js ''title'') = tv"
      and "get_prop updateData (js ''content'') = cv"
      and "str_or_undefined tv" and "str_or_undefined cv"
  shows "(short_field tv 3 \<or> short_field cv 10 \<longrightarrow>
            (\<exists>e w'. updatePost postId updateData userId w = (Inl e, w') \<and>
               is_ValidationError e \<and> posts w' = posts w \<and> bucket w' = bucket w)) \<and>
         (\<not> short_field tv 3 \<and> \<not> short_field cv 10 \<longrightarrow>
            (\<exists>q w'. updatePost postId updateData userId w = (Inr (Some q), w') \<and>
               title q = (if tv = Undefined then title p else trim (str_of tv)) \<and>
               content q = (if cv = Undefined then content p else trim (str_of cv)) \<and>
               posts w' = update_first (\<lambda>q. post_id q = new_ObjectId postId) q (posts w)))"
proof -
  define w1 where "w1 = record_op (PostFindById postId) w"
  have w1: "posts w1 = posts w" "bucket w1 = bucket w" by (simp_all add: w1_def record_op_def)
  from assms(2) have found: "find (\<lambda>q. post_id q = new_ObjectId postId) (posts w1) = Some p"
    by (simp add: w1)
  note run = updatePost_by_owner_typed [OF assms, folded w1_def]
  note upd = Post_findByIdAndUpdate_found [OF assms(1) found]
  have nonempty: "\<not> length (trim s) < n \<Longrightarrow> 0 < n \<Longrightarrow> trim s \<noteq> [] \<and> s \<noteq> []" for s n
    by (auto simp: trim_Nil)
  from assms(6,7) consider
      (uu) "tv = Undefined" "cv = Undefined"
    | (us) c where "tv = Undefined" "cv = Str c"
    | (su) t where "tv = Str t" "cv = Undefined"
    | (ss) t c where "tv = Str t" "cv = Str c"
    by (cases tv; cases cv) (auto simp: str_or_undefined_def)
  then show ?thesis
  proof cases
    case uu
    then show ?thesis
      by (simp add: run upd short_field_def record_op_def w1)
  next
    case us
    then show ?thesis
      using nonempty [of c 10]
      by (auto simp: run upd short_field_def record_op_def w1 cast_update_def keys_differ trim_Nil)
  next
    case su
    then show ?thesis
      using nonempty [of t 3]
      by (auto simp: run upd short_field_def record_op_def w1 cast_update_def keys_differ trim_Nil)
  next
    case ss
    then show ?thesis
      using nonempty [of t 3] nonempty [of c 10]
      by (auto simp: run upd short_field_def record_op_def w1 cast_update_def keys_differ trim_Nil)
  qed
qed

text \<open>
  A patch whose title is a number and whose content, trimmed, has 5 code units, sent by the
  owner of an existing post: the call of \<^verbatim>\<open>trim\<close> on the title throws a \<open>TypeError\<close>
  before the content is looked at.
\<close>

theorem updatePost_number_title_is_a_TypeError:
  "get_prop number_title_postData (js ''title'') = Num 123 \<and>
   short_field (get_prop number_title_postData (js ''content'')) 10 \<and>
   updatePost example_post_param number_title_postData owner example_world =
     (Inl (TypeError ''trim is not a function''),
      record_op (PostFindById example_post_param) example_world)"
proof -
  have "short_field (get_prop number_title_postData (js ''content'')) 10"
    by (simp add: number_title_props short_field_def short_trim) (simp add: js_def)
  moreover have "updatePost example_post_param number_title_postData owner example_world =
     (Inl (TypeError ''trim is not a function''),
      record_op (PostFindById example_post_param) example_world)"
    by (simp add: updatePost_def validateObjectId_def io_defs Post_findById_valid
        example_post_param_valid example_post_found example_post_owner number_title_props
        too_short_def)
  ultimately show ?thesis by (simp add: number_title_props)
qed

lemma content_only_patch_props:
  "get_prop content_only_patch (js ''title'') = Undefined"
  "get_prop content_only_patch (js ''content'') = Str (js '' A new, longer content '')"
  by (simp_all add: content_only_patch_def get_prop_def js_def)

lemma content_only_trim:
  "trim (js '' A new, longer content '') = js ''A new, longer content''"
  by (simp add: trim_def js_def isWhiteSpace_def)

lemma example_short_fields:
  "short_field (Str []) 3"
  "short_field (Str (js '' Hi '')) 3"
  "\<not> short_field Undefined 3"
  "\<not> short_field Undefined 10"
  "\<not> short_field (Str (js '' A new, longer content '')) 10"
  by (simp_all add: short_field_def trim_Nil example_trims content_only_trim)
     (simp_all add: js_def)

theorem updatePost_validates_the_string_fields_of_the_patch_witness:
  "ObjectId_isValid example_post_param \<and>
   find (\<lambda>q. post_id q = new_ObjectId example_post_param) (posts example_world) = Some example_post \<and>
   user_id example_post = owner \<and>
   str_or_undefined (Str []) \<and> str_or_undefined Undefined \<and> short_field (Str []) 3 \<and>
   (\<exists>e w'. updatePost example_post_param empty_title_patch owner example_world = (Inl e, w') \<and>
      is_ValidationError e \<and> posts w' = posts example_world) \<and>
   str_or_undefined (Str (js '' Hi '')) \<and> short_field (Str (js '' Hi '')) 3 \<and>
   (\<exists>e w'. updatePost example_post_param short_title_postData owner example_world = (Inl e, w') \<and>
      is_ValidationError e \<and> posts w' = posts example_world) \<and>
   \<not> short_field Undefined 3 \<and> \<not> short_field (Str (js '' A new, longer content '')) 10 \<and>
   (\<exists>q w'. updatePost example_post_param content_only_patch owner example_world =
        (Inr (Some q), w') \<and>
      title q = title example_post \<and> content q = js ''A new, longer content'')"
proof -
  have typed: "str_or_undefined (Str s)" "str_or_undefined Undefined" for s
    by (simp_all add: str_or_undefined_def)
  note base = updatePost_validates_the_string_fields_of_the_patch
    [OF example_post_param_valid example_post_found example_post_owner(1)]
  from base [OF empty_title_patch_props typed(1) typed(2)]
  have a: "\<exists>e w'. updatePost example_post_param empty_title_patch owner example_world = (Inl e, w') \<and>
      is_ValidationError e \<and> posts w' = posts example_world"
    by (simp add: example_short_fields) blast
  from base [OF short_title_postData_props typed(1) typed(1)]
  have b: "\<exists>e w'. updatePost example_post_param short_title_postData owner example_world = (Inl e, w') \<and>
      is_ValidationError e \<and> posts w' = posts example_world"
    by (simp add: example_short_fields) blast
  from base [OF content_only_patch_props typed(2) typed(1)]
  have c: "\<exists>q w'. updatePost example_post_param content_only_patch owner example_world =
        (Inr (Some q), w') \<and>
      title q = title example_post \<and> content q = js ''A new, longer content''"
    by (simp add: example_short_fields content_only_trim) blast
  from a b c show ?thesis
    using example_post_param_valid example_post_found example_post_owner(1) typed
    by (simp add: example_short_fields)
qed

section \<open>Download endpoints\<close>

lemma get_image_by_filename_gate:
  assumes "gridfs_ready w"
      and "filter (\<lambda>f. file_name f = name) (bucket w) = file # rest"
      and "\<not> startsWith (resolve_contentType file) (js ''image/'')"
  shows "get_image_by_filename name w =
     (Inr (json_response 404 [(js ''error'', Str (js ''Not an image'')),
        (js ''contentType'', Str (resolve_contentType file))]),
      record_op (BucketFindByName name) w)"
  using assms
  by (simp add: get_image_by_filename_def getGridFS_def io_defs bucket_find_by_name_def Let_def)

lemma pdf_file_facts:
  "ObjectId_isValid pdf_id_param"
  "filter (\<lambda>f. file_id f = new_ObjectId pdf_id_param) (bucket example_world) =
     [\<lparr>file_id = oid ''ccccccccccccccccccccccc3'', file_name = js ''02.pdf'',
       file_length = 4, file_contentType = None,
       metadata = Some \<lparr>originalName = Some (js ''doc.pdf''), uploadedBy = None,
                       uploadedAt = Some 4, md_contentType = Some (js ''application/pdf'')\<rparr>,
       file_data = [0x25, 0x50, 0x44, 0x46]\<rparr>]"
  "filter (\<lambda>f. file_name f = pdf_name_param) (bucket example_world) =
     [\<lparr>file_id = oid ''ccccccccccccccccccccccc3'', file_name = js ''02.pdf'',
       file_length = 4, file_contentType = None,
       metadata = Some \<lparr>originalName = Some (js ''doc.pdf''), uploadedBy = None,
                       uploadedAt = Some 4, md_contentType = Some (js ''application/pdf'')\<rparr>,
       file_data = [0x25, 0x50, 0x44, 0x46]\<rparr>]"
  "gridfs_ready example_world"
  by (simp_all add: pdf_id_param_def pdf_name_param_def ObjectId_isValid_def isHexDigit_def
      example_world_def new_ObjectId_def hex_lower_def oid_def js_def)

lemma pdf_contentType:
  "resolve_contentType
     \<lparr>file_id = oid ''ccccccccccccccccccccccc3'', file_name = js ''02.pdf'',
       file_length = 4, file_contentType = None,
       metadata = Some \<lparr>originalName = Some (js ''doc.pdf''), uploadedBy = None,
                       uploadedAt = Some 4, md_contentType = Some (js ''application/pdf'')\<rparr>,
       file_data = [0x25, 0x50, 0x44, 0x46]\<rparr> = js ''application/pdf''"
  "\<not> startsWith (js ''application/pdf'') (js ''image/'')"
  by (simp_all add: resolve_contentType_def or_string_def startsWith_def js_def)

lemma pdf_headers:
  "set_headers []
     (image_headers
        \<lparr>file_id = oid ''ccccccccccccccccccccccc3'', file_name = js ''02.pdf'',
          file_length = 4, file_contentType = None,
          metadata = Some \<lparr>originalName = Some (js ''doc.pdf''), uploadedBy = None,
                          uploadedAt = Some 4, md_contentType = Some (js ''application/pdf'')\<rparr>,
          file_data = [0x25, 0x50, 0x44, 0x46]\<rparr>
        (js ''application/pdf'')) =
     ([(''Content-Type'', js ''application/pdf''),
       (''Content-Disposition'', js ''inline; filename=\"doc.pdf\"''),
       (''Cache-Control'', js ''public, max-age=31536000'')], None)"
  by code_simp

text \<open>
  C2 at a stored PDF document. Asked for by storage name, the handler answers 404 and sends
  no byte of it; asked for by id, the handler sets the document's own content type and
  streams its bytes with status 200: the by-id handler has no content-type gate.
\<close>

theorem download_by_id_streams_a_stored_pdf:
  "\<not> startsWith (js ''application/pdf'') (js ''image/'') \<and>
   fst (get_image_by_filename pdf_name_param example_world) =
     Inr \<lparr>status = 404, headers = [],
          res_body = JsonBody [(js ''error'', Str (js ''Not an image'')),
                               (js ''contentType'', Str (js ''application/pdf''))]\<rparr> \<and>
   fst (get_image_by_id pdf_id_param example_world) =
     Inr \<lparr>status = 200,
          headers = [(''Content-Type'', js ''application/pdf''),
                     (''Content-Disposition'', js ''inline; filename=\"doc.pdf\"''),
                     (''Cache-Control'', js ''public, max-age=31536000'')],
          res_body = StreamBody [0x25, 0x50, 0x44, 0x46]\<rparr>"
proof -
  have by_name: "fst (get_image_by_filename pdf_name_param example_world) =
     Inr \<lparr>status = 404, headers = [],
          res_body = JsonBody [(js ''error'', Str (js ''Not an image'')),
                               (js ''contentType'', Str (js ''application/pdf''))]\<rparr>"
    using get_image_by_filename_gate [OF pdf_file_facts(4) pdf_file_facts(3)] pdf_contentType
    by (simp add: json_response_def)
  have stream: "openDownloadStream (new_ObjectId pdf_id_param)
      (record_op (BucketFindById (new_ObjectId pdf_id_param)) example_world) =
     (Inr [0x25, 0x50, 0x44, 0x46],
      record_op (BucketOpenDownloadStream (new_ObjectId pdf_id_param))
        (record_op (BucketFindById (new_ObjectId pdf_id_param)) example_world))"
    using pdf_file_facts(2) by (simp add: openDownloadStream_def record_op_def Let_def)
  have by_id: "fst (get_image_by_id pdf_id_param example_world) =
     Inr \<lparr>status = 200,
          headers = [(''Content-Type'', js ''application/pdf''),
                     (''Content-Disposition'', js ''inline; filename=\"doc.pdf\"''),
                     (''Cache-Control'', js ''public, max-age=31536000'')],
          res_body = StreamBody [0x25, 0x50, 0x44, 0x46]\<rparr>"
    using pdf_file_facts(1,4)
    by (simp add: get_image_by_id_def getGridFS_def io_defs bucket_find_by_id_def
        pdf_file_facts(2) pdf_contentType pdf_headers pipe_stream_def stream Let_def
        del: set_headers.simps)
  from by_name by_id pdf_contentType(2) show ?thesis by simp
qed

section \<open>Storage names\<close>

lemma length_toString_hex: "length (toString_hex bs) = 2 * length bs"
  by (induction bs) (simp_all add: toString_hex_def hex_of_byte_def)

lemma hex_digit_isHexDigit: "n < 16 \<Longrightarrow> isHexDigit (hex_digit n)"
proof -
  assume "n < 16"
  then have "n \<in> {0, 1, 2, 3, 4, 5, 6, 7, 8, 9, 10, 11, 12, 13, 14, 15}" by simp arith
  then show ?thesis
    by (auto simp: hex_digit_def js_def isHexDigit_def)
qed

lemma toString_hex_isHexDigit: "list_all isHexDigit (toString_hex bs)"
proof (induction bs)
  case Nil
  then show ?case by (simp add: toString_hex_def)
next
  case (Cons b bs)
  have "unat b div 16 < 16"
    using unsigned_less [of b, where 'a = nat] by (simp add: div_less_iff_less_mult)
  moreover have "unat b mod 16 < 16" by simp
  ultimately have "list_all isHexDigit (hex_of_byte b)"
    by (simp add: hex_of_byte_def hex_digit_isHexDigit)
  with Cons show ?case by (simp add: toString_hex_def)
qed

lemma uploadToGridFS_ready:
  assumes "gridfs_ready w"
  shows "uploadToGridFS buf fileInfo userId w =
     (Inr \<lparr>uf_id = oid_source w (oid_used w),
           uf_filename = toString_hex (map (random_source w) [random_used w ..< random_used w + 16])
              @ extname (originalname fileInfo),
           uf_contentType = mimetype fileInfo,
           uf_size = length buf\<rparr>,
      w\<lparr>bucket := bucket w @
           [\<lparr>file_id = oid_source w (oid_used w),
             file_name = toString_hex (map (random_source w) [random_used w ..< random_used w + 16])
               @ extname (originalname fileInfo),
             file_length = length buf,
             file_contentType = None,
             metadata = Some \<lparr>originalName = Some (originalname fileInfo),
                              uploadedBy = Some userId,
                              uploadedAt = Some (clock w),
                              md_contentType = Some (mimetype fileInfo)\<rparr>,
             file_data = buf\<rparr>],
        oplog := oplog w @ [BucketOpenUploadStream
           (toString_hex (map (random_source w) [random_used w ..< random_used w + 16])
              @ extname (originalname fileInfo))],
        oid_used := Suc (oid_used w),
        random_used := random_used w + 16\<rparr>)"
  using assms
  by (simp add: uploadToGridFS_def getGridFS_def io_defs randomBytes_def bucket_upload_def
      record_op_def Let_def)

lemma example_random_hex:
  "toString_hex (map (random_source example_world)
      [random_used example_world ..< random_used example_world + 16]) =
     js ''000102030405060708090a0b0c0d0e0f''"
  by code_simp

lemma example_extnames:
  "extname (originalname png_upload) = js ''.png''"
  "extname (originalname php_upload) = js ''.php''"
  "extname (originalname bare_upload) = []"
  by code_simp+

text \<open>
  Two uploads in the same state, with the same random bytes, whose original filenames differ
  in the extension only: the storage names differ, each ending with the extension the client
  sent.
\<close>

theorem storage_name_ends_with_the_uploaded_extension:
  "originalname php_upload = js ''a.php'' \<and>
   map_sum id uf_filename (fst (uploadToGridFS (buffer png_upload) png_upload owner example_world)) =
     Inr (js ''000102030405060708090a0b0c0d0e0f'' @ js ''.png'') \<and>
   map_sum id uf_filename (fst (uploadToGridFS (buffer php_upload) php_upload owner example_world)) =
     Inr (js ''000102030405060708090a0b0c0d0e0f'' @ js ''.php'') \<and>
   js ''000102030405060708090a0b0c0d0e0f'' @ js ''.png'' \<noteq>
     js ''000102030405060708090a0b0c0d0e0f'' @ js ''.php''"
proof -
  have ready: "gridfs_ready example_world" by (simp add: example_world_def)
  have "js ''.png'' \<noteq> js ''.php''" by (simp add: js_def)
  then show ?thesis
    by (simp add: uploadToGridFS_ready [OF ready] example_random_hex example_extnames)
       (simp add: php_upload_def)
qed

text \<open>
  C7, as the code has it. Once \<^verbatim>\<open>initGridFS\<close> has run, an upload succeeds; the storage name
  is the hex encoding of the next 16 random bytes, 32 hexadecimal digits that depend on
  nothing the client sends, followed by the extension of the original filename, which is
  the client's; without an extension the name is the 32 digits alone. The record returned
  carries this name, the original mimetype as content type and the buffer's length as size,
  and the bucket holds one more file of that name with the buffer's bytes.
\<close>

theorem storage_name_is_random_hex_then_the_extension:
  assumes "gridfs_ready w"
      and "hex = toString_hex (map (random_source w) [random_used w ..< random_used w + 16])"
  shows "\<exists>r w'. uploadToGridFS buf fileInfo userId w = (Inr r, w') \<and>
           uf_filename r = hex @ extname (originalname fileInfo) \<and>
           length hex = 32 \<and> list_all isHexDigit hex \<and>
           (extname (originalname fileInfo) = [] \<longrightarrow> uf_filename r = hex) \<and>
           uf_contentType r = mimetype fileInfo \<and>
           uf_size r = length buf \<and>
           bucket w' = bucket w @
             [\<lparr>file_id = uf_id r, file_name = uf_filename r, file_length = length buf,
               file_contentType = None,
               metadata = Some \<lparr>originalName = Some (originalname fileInfo),
                                uploadedBy = Some userId, uploadedAt = Some (clock w),
                                md_contentType = Some (mimetype fileInfo)\<rparr>,
               file_data = buf\<rparr>]"
  unfolding uploadToGridFS_ready [OF assms(1)] assms(2)
  by (intro exI conjI) (rule refl, simp_all add: length_toString_hex toString_hex_isHexDigit)

theorem storage_name_is_random_hex_then_the_extension_witness:
  "gridfs_ready example_world \<and>
   extname (originalname bare_upload) = [] \<and>
   (\<exists>r w'. uploadToGridFS (buffer bare_upload) bare_upload owner example_world = (Inr r, w') \<and>
      uf_filename r = js ''000102030405060708090a0b0c0d0e0f'' \<and>
      uf_contentType r = js ''image/png'' \<and> uf_size r = 0) \<and>
   (\<exists>r w'. uploadToGridFS (buffer png_upload) png_upload owner example_world = (Inr r, w') \<and>
      uf_filename r = js ''000102030405060708090a0b0c0d0e0f'' @ js ''.png'' \<and>
      uf_contentType r = js ''image/png'' \<and> uf_size r = 3)"
proof -
  have ready: "gridfs_ready example_world" by (simp add: example_world_def)
  have files: "mimetype bare_upload = js ''image/png''" "buffer bare_upload = []"
    "mimetype png_upload = js ''image/png''" "length (buffer png_upload) = 3"
    by (simp_all add: bare_upload_def png_upload_def)
  from storage_name_is_random_hex_then_the_extension
    [OF ready example_random_hex [symmetric], of "buffer bare_upload" bare_upload owner]
  have a: "\<exists>r w'. uploadToGridFS (buffer bare_upload) bare_upload owner example_world = (Inr r, w') \<and>
      uf_filename r = js ''000102030405060708090a0b0c0d0e0f'' \<and>
      uf_contentType r = js ''image/png'' \<and> uf_size r = 0"
    by (simp add: example_extnames files) blast
  from storage_name_is_random_hex_then_the_extension
    [OF ready example_random_hex [symmetric], of "buffer png_upload" png_upload owner]
  have b: "\<exists>r w'. uploadToGridFS (buffer png_upload) png_upload owner example_world = (Inr r, w') \<and>
      uf_filename r = js ''000102030405060708090a0b0c0d0e0f'' @ js ''.png'' \<and>
      uf_contentType r = js ''image/png'' \<and> uf_size r = 3"
    by (simp add: example_extnames files) blast
  from a b ready example_extnames(3) show ?thesis by simp
qed

end
